theory Spec2Isabelle
  imports Complex_Main
begin

text \<open>
  The class \<^verbatim>\<open>KMLParser\<close> of rally-live-maps (in \<^verbatim>\<open>src/app.js\<close>) as functions of
  HOL: the parsing of coordinate text, the passes over the LineString and Point nodes of
  a document tree that give the tracks and icons, the resolution of icon styles, and the
  two loaders. The parts of the JavaScript library and of the DOM that the class calls
  come first, then the class, then the notions in which its specification is worded, and
  last the properties of the specification, proved or refuted on these definitions.
\<close>

section \<open>Strings\<close>

text \<open>
  A JavaScript string is a \<^typ>\<open>string\<close>; a \<^typ>\<open>char\<close> stands for a UTF-16 code
  unit below 256. The white space of \<^verbatim>\<open>String.prototype.trim\<close>, of the regular
  expression class \<^verbatim>\<open>\s\<close> and of \<^verbatim>\<open>parseFloat\<close> is one and the same set
  (WhiteSpace and LineTerminator of ECMAScript); in this range it is TAB, LF, VT, FF,
  CR, SP and NBSP.
\<close>

definition isWhiteSpace :: "char \<Rightarrow> bool" where
  "isWhiteSpace c =
     (c = CHR 0x09 \<or> c = CHR 0x0A \<or> c = CHR 0x0B \<or> c = CHR 0x0C \<or> c = CHR 0x0D \<or>
      c = CHR 0x20 \<or> c = CHR 0xA0)"

text \<open>\<^verbatim>\<open>s.trim()\<close>\<close>

definition trim :: "string \<Rightarrow> string" where
  "trim s = rev (dropWhile isWhiteSpace (rev (dropWhile isWhiteSpace s)))"

text \<open>
  \<^verbatim>\<open>s.split(/\s+/)\<close>: the pieces between the maximal runs of white space. A run at
  the very start or end of \<open>s\<close> leaves an empty piece there, and the empty string
  splits into one empty piece.
\<close>

function splitWhitespace :: "string \<Rightarrow> string list" where
  "splitWhitespace s =
     (if dropWhile (\<lambda>c. \<not> isWhiteSpace c) s = [] then [takeWhile (\<lambda>c. \<not> isWhiteSpace c) s]
      else takeWhile (\<lambda>c. \<not> isWhiteSpace c) s #
           splitWhitespace (dropWhile isWhiteSpace (dropWhile (\<lambda>c. \<not> isWhiteSpace c) s)))"
  by pat_completeness auto
termination
proof (relation "measure length")
  show "wf (measure length)" by simp
next
  fix s :: string
  let ?rest = "dropWhile (\<lambda>c. \<not> isWhiteSpace c) s"
  assume ne: "?rest \<noteq> []"
  then have "isWhiteSpace (hd ?rest)"
    using hd_dropWhile [of "\<lambda>c. \<not> isWhiteSpace c" s] by simp
  with ne have "length (dropWhile isWhiteSpace ?rest) < length ?rest"
    by (cases ?rest) (simp_all add: length_dropWhile_le le_imp_less_Suc)
  moreover have "length ?rest \<le> length s"
    by (rule length_dropWhile_le)
  ultimately show "(dropWhile isWhiteSpace ?rest, s) \<in> measure length"
    by simp
qed

declare splitWhitespace.simps [simp del]

text \<open>\<^verbatim>\<open>s.split(',')\<close>, for a separator of one character.\<close>

primrec splitChar :: "char \<Rightarrow> string \<Rightarrow> string list" where
  "splitChar sep [] = [[]]"
| "splitChar sep (x # xs) =
     (if x = sep then [] # splitChar sep xs
      else (case splitChar sep xs of [] \<Rightarrow> [[x]] | p # ps \<Rightarrow> (x # p) # ps))"

text \<open>\<^verbatim>\<open>s.replace('#', '')\<close>: a string pattern replaces its first occurrence only.\<close>

primrec removeFirst :: "char \<Rightarrow> string \<Rightarrow> string" where
  "removeFirst c [] = []"
| "removeFirst c (x # xs) = (if x = c then xs else x # removeFirst c xs)"

text \<open>The decimal digits of a template literal \<^verbatim>\<open>${i + 1}\<close>, for an index \<open>i\<close>.\<close>

definition digitChar :: "nat \<Rightarrow> char" where
  "digitChar d = char_of (48 + d)"

fun numberToString :: "nat \<Rightarrow> string" where
  "numberToString n =
     (if n < 10 then [digitChar n] else numberToString (n div 10) @ [digitChar (n mod 10)])"

declare numberToString.simps [simp del]

section \<open>Numbers\<close>

text \<open>
  A JavaScript Number is a binary64 value: \<open>NaN\<close>, an infinity, the negative zero, or a
  finite value, held as the rational it equals (\<open>Finite 0\<close> is the positive zero). Every
  operation computes the exact result and rounds it to the nearest binary64 value, ties
  to the even significand; a result of magnitude \<open>2 ^ 1024 - 2 ^ 970\<close> or more is an
  infinity, and below \<open>2 ^ - 1022\<close> the values are the multiples of \<open>2 ^ - 1074\<close>.
\<close>

datatype number = NaN | PosInfinity | NegInfinity | Finite rat | NegZero

definition isNaN :: "number \<Rightarrow> bool" where
  "isNaN x = (x = NaN)"

text \<open>
  The number of binary digits of a positive integer, and with it the integer part of the
  binary logarithm of a positive fraction \<open>a / b\<close>.
\<close>

function bitLength :: "int \<Rightarrow> int" where
  "bitLength a = (if 0 < a then 1 + bitLength (a div 2) else 0)"
  by pat_completeness auto
termination
  by (relation "measure nat") auto

declare bitLength.simps [simp del]

definition floorLog2 :: "int \<Rightarrow> int \<Rightarrow> int" where
  "floorLog2 a b =
     (let d = bitLength a - bitLength b in
      if (if 0 \<le> d then b * 2 ^ nat d \<le> a else b \<le> a * 2 ^ nat (- d)) then d else d - 1)"

text \<open>The integer nearest to \<open>n / m\<close> for positive \<open>m\<close>, the even one of two equally near.\<close>

definition roundQuotient :: "int \<Rightarrow> int \<Rightarrow> int" where
  "roundQuotient n m =
     (let f = n div m; r = n mod m in
      if 2 * r < m then f
      else if m < 2 * r then f + 1
      else if f mod 2 = 0 then f else f + 1)"

text \<open>
  Rounding a non-negative rational to binary64: with \<open>e\<close> the binary exponent of \<open>q\<close>,
  the result is the multiple of \<open>2 ^ p\<close> nearest to \<open>q\<close>, where \<open>p = max e (- 1022) - 52\<close>
  is the weight of the last of the 53 significand bits.
\<close>

definition roundMagnitude :: "rat \<Rightarrow> number" where
  "roundMagnitude q =
     (if q = 0 then Finite 0
      else
        (let a = fst (quotient_of q);
             b = snd (quotient_of q);
             e = floorLog2 a b
         in if 1024 \<le> e then PosInfinity
            else
              (let p = max e (- 1022) - 52;
                   n = (if 0 \<le> p then roundQuotient a (b * 2 ^ nat p)
                        else roundQuotient (a * 2 ^ nat (- p)) b)
               in if p = 971 \<and> 2 ^ 53 \<le> n then PosInfinity
                  else Finite (if 0 \<le> p then of_int (n * 2 ^ nat p)
                               else of_int n / of_int (2 ^ nat (- p))))))"

text \<open>Signs, and the binary64 value of a rational of either sign.\<close>

definition negate :: "number \<Rightarrow> number" where
  "negate x =
     (case x of
        NaN \<Rightarrow> NaN
      | PosInfinity \<Rightarrow> NegInfinity
      | NegInfinity \<Rightarrow> PosInfinity
      | Finite q \<Rightarrow> if q = 0 then NegZero else Finite (- q)
      | NegZero \<Rightarrow> Finite 0)"

definition toNumber :: "rat \<Rightarrow> number" where
  "toNumber q = (if q < 0 then negate (roundMagnitude (- q)) else roundMagnitude q)"

definition isNegative :: "number \<Rightarrow> bool" where
  "isNegative x =
     (case x of
        NaN \<Rightarrow> False
      | PosInfinity \<Rightarrow> False
      | NegInfinity \<Rightarrow> True
      | Finite q \<Rightarrow> q < 0
      | NegZero \<Rightarrow> True)"

definition isInfinite :: "number \<Rightarrow> bool" where
  "isInfinite x = (x = PosInfinity \<or> x = NegInfinity)"

definition isZero :: "number \<Rightarrow> bool" where
  "isZero x = (x = Finite 0 \<or> x = NegZero)"

definition magnitude :: "number \<Rightarrow> rat" where
  "magnitude x = (case x of Finite q \<Rightarrow> \<bar>q\<bar> | other \<Rightarrow> 0)"

definition withSign :: "bool \<Rightarrow> number \<Rightarrow> number" where
  "withSign negative x = (if negative then negate x else x)"

text \<open>The operators \<^verbatim>\<open>*\<close> and \<^verbatim>\<open>/\<close> of the language on Numbers.\<close>

definition jsTimes :: "number \<Rightarrow> number \<Rightarrow> number" where
  "jsTimes x y =
     (if isNaN x \<or> isNaN y then NaN
      else if isInfinite x \<or> isInfinite y then
        (if isZero x \<or> isZero y then NaN
         else withSign (isNegative x \<noteq> isNegative y) PosInfinity)
      else withSign (isNegative x \<noteq> isNegative y) (roundMagnitude (magnitude x * magnitude y)))"

definition jsDividedBy :: "number \<Rightarrow> number \<Rightarrow> number" where
  "jsDividedBy x y =
     (if isNaN x \<or> isNaN y then NaN
      else if isInfinite x then
        (if isInfinite y then NaN else withSign (isNegative x \<noteq> isNegative y) PosInfinity)
      else if isInfinite y then withSign (isNegative x \<noteq> isNegative y) (Finite 0)
      else if isZero y then
        (if isZero x then NaN else withSign (isNegative x \<noteq> isNegative y) PosInfinity)
      else withSign (isNegative x \<noteq> isNegative y) (roundMagnitude (magnitude x / magnitude y)))"

subsection \<open>parseFloat\<close>

text \<open>
  \<^verbatim>\<open>parseFloat\<close> skips leading white space and reads the longest prefix that is a
  StrDecimalLiteral: an optional sign, then \<^verbatim>\<open>Infinity\<close> or decimal digits with an
  optional fraction and an optional exponent (an exponent mark counts only when digits
  follow it). What comes after that prefix is ignored; without such a prefix the result
  is \<open>NaN\<close>. The result is the decimal value of the prefix rounded to binary64: a huge
  literal gives an infinity, and \<^verbatim>\<open>-0\<close> the negative zero.
\<close>

definition isDigit :: "char \<Rightarrow> bool" where
  "isDigit c = (48 \<le> (of_char c :: int) \<and> (of_char c :: int) \<le> 57)"

definition digitsValue :: "string \<Rightarrow> int" where
  "digitsValue ds = foldl (\<lambda>n c. 10 * n + (of_char c - 48)) 0 ds"

definition splitSign :: "string \<Rightarrow> bool \<times> string" where
  "splitSign s =
     (case s of
        [] \<Rightarrow> (False, s)
      | c # r \<Rightarrow> if c = CHR ''+'' then (False, r) else if c = CHR ''-'' then (True, r) else (False, s))"

definition exponentPart :: "string \<Rightarrow> int" where
  "exponentPart s =
     (case s of
        [] \<Rightarrow> 0
      | c # r \<Rightarrow>
          if c = CHR ''e'' \<or> c = CHR ''E'' then
            (let ds = takeWhile isDigit (snd (splitSign r)) in
             if ds = [] then 0
             else if fst (splitSign r) then - digitsValue ds else digitsValue ds)
          else 0)"

definition scale10 :: "rat \<Rightarrow> int \<Rightarrow> rat" where
  "scale10 m k = (if 0 \<le> k then m * 10 ^ nat k else m / 10 ^ nat (- k))"

definition parseFloat :: "string \<Rightarrow> number" where
  "parseFloat s =
     (let neg = fst (splitSign (dropWhile isWhiteSpace s));
          u = snd (splitSign (dropWhile isWhiteSpace s))
      in if take 8 u = ''Infinity'' then (if neg then NegInfinity else PosInfinity)
         else
           (let ip = takeWhile isDigit u;
                r1 = dropWhile isDigit u;
                fp = (case r1 of [] \<Rightarrow> [] | c # r \<Rightarrow> if c = CHR ''.'' then takeWhile isDigit r else []);
                r2 = (case r1 of [] \<Rightarrow> [] | c # r \<Rightarrow> if c = CHR ''.'' then dropWhile isDigit r else r1)
            in if ip = [] \<and> fp = [] then NaN
               else withSign neg
                      (roundMagnitude (scale10 (of_int (digitsValue (ip @ fp)))
                                               (exponentPart r2 - int (length fp))))))"

section \<open>Coordinates\<close>

record point =
  lat :: number
  lon :: number
  alt :: number

text \<open>
  \<^verbatim>\<open>KMLParser.parseCoordinates\<close>: the body of the \<^verbatim>\<open>for (const coord of coords)\<close>
  loop, with the array \<open>points\<close> it pushes to passed along.
\<close>

fun parseCoordinates_loop :: "string list \<Rightarrow> point list \<Rightarrow> point list" where
  "parseCoordinates_loop [] points = points"
| "parseCoordinates_loop (coord # coords) points =
     parseCoordinates_loop coords
       (if trim coord \<noteq> [] then
          (let parts = splitChar CHR '','' coord in
           if length parts \<ge> 2 then
             (let lon = parseFloat (parts ! 0);
                  lat = parseFloat (parts ! 1);
                  alt = (if length parts > 2 then parseFloat (parts ! 2) else Finite 0)
              in if \<not> isNaN lon \<and> \<not> isNaN lat \<and> \<not> isNaN alt
                 then points @ [\<lparr>lat = lat, lon = lon, alt = alt\<rparr>]
                 else points)
           else points)
        else points)"

definition parseCoordinates :: "string \<Rightarrow> point list" where
  "parseCoordinates coordinatesText = parseCoordinates_loop (splitWhitespace coordinatesText) []"

section \<open>The document tree\<close>

text \<open>
  The tree that \<^verbatim>\<open>DOMParser.parseFromString(text, 'text/xml')\<close> hands to the parser.
  An element has a namespace prefix (empty when it has none), a local name, its
  attributes by qualified name, and its children. A document is given by its root
  element.
\<close>

datatype node =
    Element string string "(string \<times> string) list" "node list"
  | Text string
  | Comment string

text \<open>An element together with its ancestors, the parent first.\<close>

type_synonym element = "node list \<times> node"

text \<open>
  \<^verbatim>\<open>getElementsByTagName(t)\<close> compares \<open>t\<close> with the qualified name of an element,
  the type selector of \<^verbatim>\<open>closest(t)\<close> with its local name; both are case-sensitive in
  an XML document.
\<close>

fun hasTagName :: "string \<Rightarrow> node \<Rightarrow> bool" where
  "hasTagName t (Element p l a cs) = ((if p = [] then l else p @ '':'' @ l) = t)"
| "hasTagName t (Text s) = False"
| "hasTagName t (Comment s) = False"

fun hasLocalName :: "string \<Rightarrow> node \<Rightarrow> bool" where
  "hasLocalName t (Element p l a cs) = (l = t)"
| "hasLocalName t (Text s) = False"
| "hasLocalName t (Comment s) = False"

fun childNodes :: "node \<Rightarrow> node list" where
  "childNodes (Element p l a cs) = cs"
| "childNodes (Text s) = []"
| "childNodes (Comment s) = []"

fun getAttribute :: "string \<Rightarrow> node \<Rightarrow> string option" where
  "getAttribute k (Element p l a cs) = map_of a k"
| "getAttribute k (Text s) = None"
| "getAttribute k (Comment s) = None"

text \<open>\<^verbatim>\<open>textContent\<close> of an element: the text of its descendants, comments left out.\<close>

fun textContent :: "node \<Rightarrow> string" where
  "textContent (Element p l a cs) = concat (map textContent cs)"
| "textContent (Text s) = s"
| "textContent (Comment s) = []"

text \<open>The elements of a subtree in tree order, its root included.\<close>

fun elements :: "node \<Rightarrow> node list" where
  "elements (Element p l a cs) = Element p l a cs # concat (map elements cs)"
| "elements (Text s) = []"
| "elements (Comment s) = []"

fun elementsWithAncestors :: "node list \<Rightarrow> node \<Rightarrow> element list" where
  "elementsWithAncestors anc (Element p l a cs) =
     (anc, Element p l a cs) #
     concat (map (elementsWithAncestors (Element p l a cs # anc)) cs)"
| "elementsWithAncestors anc (Text s) = []"
| "elementsWithAncestors anc (Comment s) = []"

text \<open>\<^verbatim>\<open>element.getElementsByTagName(t)\<close>: the descendants, the element itself excluded.\<close>

definition getElementsByTagName :: "string \<Rightarrow> node \<Rightarrow> node list" where
  "getElementsByTagName t e = filter (hasTagName t) (concat (map elements (childNodes e)))"

text \<open>\<^verbatim>\<open>document.getElementsByTagName(t)\<close>: every element of the document.\<close>

definition document_getElementsByTagName :: "string \<Rightarrow> node \<Rightarrow> element list" where
  "document_getElementsByTagName t doc =
     filter (\<lambda>e. hasTagName t (snd e)) (elementsWithAncestors [] doc)"

text \<open>\<^verbatim>\<open>collection[0]\<close>, \<^verbatim>\<open>undefined\<close> on an empty collection.\<close>

definition item0 :: "'a list \<Rightarrow> 'a option" where
  "item0 xs = (case xs of [] \<Rightarrow> None | x # rest \<Rightarrow> Some x)"

text \<open>
  \<^verbatim>\<open>document.getElementById(i)\<close>: the first element in tree order whose \<^verbatim>\<open>id\<close>
  attribute is \<open>i\<close>; an empty attribute is no identifier, so the empty string finds
  nothing.
\<close>

definition getElementById :: "node \<Rightarrow> string \<Rightarrow> node option" where
  "getElementById doc i =
     (if i = [] then None else find (\<lambda>e. getAttribute ''id'' e = Some i) (elements doc))"

text \<open>\<^verbatim>\<open>element.closest(t)\<close>: the element itself or its nearest ancestor of that type.\<close>

fun closestIn :: "string \<Rightarrow> node list \<Rightarrow> node option" where
  "closestIn t [] = None"
| "closestIn t (n # anc) = (if hasLocalName t n then Some n else closestIn t anc)"

definition closest :: "string \<Rightarrow> element \<Rightarrow> node option" where
  "closest t e = closestIn t (snd e # fst e)"

section \<open>KMLParser\<close>

record info =
  name :: "string option"
  description :: "string option"
  style :: "string option"

record iconStyle =
  iconUrl :: "string option"
  iconSize :: "(number \<times> number) option"
  iconAnchor :: "(number \<times> number) option"

record track =
  name :: string
  description :: "string option"
  points :: "point list"
  originalIndex :: nat
  style :: "string option"

record icon =
  name :: string
  description :: "string option"
  position :: point
  originalIndex :: nat
  iconUrl :: "string option"
  iconSize :: "(number \<times> number) option"
  iconAnchor :: "(number \<times> number) option"
  style :: "string option"

text \<open>The instance fields \<^verbatim>\<open>this.tracks\<close> and \<^verbatim>\<open>this.icons\<close>.\<close>

record KMLParser =
  tracks :: "track list"
  icons :: "icon list"

text \<open>The object \<^verbatim>\<open>{tracks, icons}\<close> that \<^verbatim>\<open>parseKML\<close> returns.\<close>

record parsed =
  tracks :: "track list"
  icons :: "icon list"

datatype error = Error string

datatype console = ConsoleLog string | ConsoleError string error

text \<open>The operand of \<^verbatim>\<open>||\<close> and \<^verbatim>\<open>!\<close>: \<^verbatim>\<open>null\<close> and the empty string are falsy.\<close>

definition truthy :: "string option \<Rightarrow> bool" where
  "truthy v = (case v of None \<Rightarrow> False | Some s \<Rightarrow> s \<noteq> [])"

definition orElse :: "string option \<Rightarrow> string \<Rightarrow> string" where
  "orElse v d = (case v of None \<Rightarrow> d | Some s \<Rightarrow> if s \<noteq> [] then s else d)"

text \<open>\<^verbatim>\<open>KMLParser.extractPlacemarkInfo\<close>\<close>

definition extractPlacemarkInfo :: "node option \<Rightarrow> nat \<Rightarrow> info" where
  "extractPlacemarkInfo placemark index =
     (case placemark of
        None \<Rightarrow> \<lparr>info.name = None, description = None, style = None\<rparr>
      | Some pm \<Rightarrow>
          \<lparr>info.name =
             (case item0 (getElementsByTagName ''name'' pm) of
                None \<Rightarrow> None
              | Some nameElement \<Rightarrow> Some (trim (textContent nameElement))),
           description =
             (case item0 (getElementsByTagName ''description'' pm) of
                None \<Rightarrow> None
              | Some descElement \<Rightarrow> Some (trim (textContent descElement))),
           style =
             (case item0 (getElementsByTagName ''styleUrl'' pm) of
                None \<Rightarrow> None
              | Some styleUrlElement \<Rightarrow> Some (trim (textContent styleUrlElement)))\<rparr>)"

text \<open>
  \<^verbatim>\<open>KMLParser.extractIconStyle\<close>. The source reads an \<^verbatim>\<open>IconStyle\<close> block with the
  same statements in two places (the inline style, the referenced style):
  \<open>readIconStyle\<close> is those statements, applied to the \<open>style\<close> object so far.
\<close>

definition readIconStyle :: "node \<Rightarrow> iconStyle \<Rightarrow> iconStyle" where
  "readIconStyle iconStyleElement style0 =
     (let style1 =
        (case item0 (getElementsByTagName ''Icon'' iconStyleElement) of
           None \<Rightarrow> style0
         | Some iconElement \<Rightarrow>
             (case item0 (getElementsByTagName ''href'' iconElement) of
                None \<Rightarrow> style0
              | Some href \<Rightarrow> style0\<lparr>iconStyle.iconUrl := Some (trim (textContent href))\<rparr>))
      in case item0 (getElementsByTagName ''scale'' iconStyleElement) of
           None \<Rightarrow> style1
         | Some scale \<Rightarrow>
             (let scaleValue = parseFloat (textContent scale) in
              if \<not> isNaN scaleValue then
                (let baseSize = Finite 32 in
                 style1\<lparr>iconStyle.iconSize :=
                          Some (jsTimes baseSize scaleValue, jsTimes baseSize scaleValue),
                        iconStyle.iconAnchor :=
                          Some (jsDividedBy (jsTimes baseSize scaleValue) (Finite 2),
                                jsDividedBy (jsTimes baseSize scaleValue) (Finite 2))\<rparr>)
              else style1))"

definition extractIconStyle :: "node \<Rightarrow> node option \<Rightarrow> iconStyle" where
  "extractIconStyle ownerDocument placemark =
     (case placemark of
        None \<Rightarrow> \<lparr>iconStyle.iconUrl = None, iconSize = None, iconAnchor = None\<rparr>
      | Some pm \<Rightarrow>
          (let style0 = \<lparr>iconStyle.iconUrl = None, iconSize = None, iconAnchor = None\<rparr>;
               style1 =
                 (case item0 (getElementsByTagName ''Style'' pm) of
                    None \<Rightarrow> style0
                  | Some styleElement \<Rightarrow>
                      (case item0 (getElementsByTagName ''IconStyle'' styleElement) of
                         None \<Rightarrow> style0
                       | Some iconStyleElement \<Rightarrow> readIconStyle iconStyleElement style0))
           in if \<not> truthy (iconStyle.iconUrl style1) then
                (case item0 (getElementsByTagName ''styleUrl'' pm) of
                   None \<Rightarrow> style1
                 | Some styleUrl \<Rightarrow>
                     (let styleId = removeFirst CHR ''#'' (trim (textContent styleUrl)) in
                      case getElementById ownerDocument styleId of
                        None \<Rightarrow> style1
                      | Some referencedStyle \<Rightarrow>
                          (case item0 (getElementsByTagName ''IconStyle'' referencedStyle) of
                             None \<Rightarrow> style1
                           | Some iconStyleElement \<Rightarrow> readIconStyle iconStyleElement style1)))
              else style1))"

text \<open>
  \<^verbatim>\<open>KMLParser.parseLineStrings\<close>: the loop over the collection, from index \<open>i\<close>, with
  the array \<^verbatim>\<open>this.tracks\<close> it pushes to.
\<close>

fun parseLineStrings_loop :: "nat \<Rightarrow> element list \<Rightarrow> track list \<Rightarrow> track list" where
  "parseLineStrings_loop i [] ts = ts"
| "parseLineStrings_loop i (lineString # rest) ts =
     parseLineStrings_loop (i + 1) rest
       (case item0 (getElementsByTagName ''coordinates'' (snd lineString)) of
          None \<Rightarrow> ts
        | Some coordinatesElement \<Rightarrow>
            if trim (textContent coordinatesElement) \<noteq> [] then
              (let coordinatesText = trim (textContent coordinatesElement);
                   points = parseCoordinates coordinatesText
               in if length points > 0 then
                    (let placemark = closest ''Placemark'' lineString;
                         trackInfo = extractPlacemarkInfo placemark i
                     in ts @
                        [\<lparr>track.name =
                            orElse (info.name trackInfo) (''Track '' @ numberToString (i + 1)),
                          description = info.description trackInfo,
                          points = points,
                          originalIndex = i,
                          style = info.style trackInfo\<rparr>])
                  else ts)
            else ts)"

definition parseLineStrings :: "KMLParser \<Rightarrow> node \<Rightarrow> KMLParser" where
  "parseLineStrings this kmlDoc =
     this\<lparr>KMLParser.tracks :=
            parseLineStrings_loop 0 (document_getElementsByTagName ''LineString'' kmlDoc)
              (KMLParser.tracks this)\<rparr>"

text \<open>\<^verbatim>\<open>KMLParser.parsePoints\<close>, in the same way.\<close>

fun parsePoints_loop :: "node \<Rightarrow> nat \<Rightarrow> element list \<Rightarrow> icon list \<Rightarrow> icon list" where
  "parsePoints_loop kmlDoc i [] is = is"
| "parsePoints_loop kmlDoc i (pointElement # rest) is =
     parsePoints_loop kmlDoc (i + 1) rest
       (case item0 (getElementsByTagName ''coordinates'' (snd pointElement)) of
          None \<Rightarrow> is
        | Some coordinatesElement \<Rightarrow>
            if trim (textContent coordinatesElement) \<noteq> [] then
              (let coordinatesText = trim (textContent coordinatesElement);
                   coords = parseCoordinates coordinatesText
               in if length coords > 0 then
                    (let placemark = closest ''Placemark'' pointElement;
                         iconInfo = extractPlacemarkInfo placemark i;
                         iconStyle = extractIconStyle kmlDoc placemark
                     in is @
                        [\<lparr>icon.name =
                            orElse (info.name iconInfo) (''Point '' @ numberToString (i + 1)),
                          description = info.description iconInfo,
                          position = coords ! 0,
                          originalIndex = i,
                          iconUrl = iconStyle.iconUrl iconStyle,
                          iconSize = iconStyle.iconSize iconStyle,
                          iconAnchor = iconStyle.iconAnchor iconStyle,
                          style = info.style iconInfo\<rparr>])
                  else is)
            else is)"

definition parsePoints :: "KMLParser \<Rightarrow> node \<Rightarrow> KMLParser" where
  "parsePoints this kmlDoc =
     this\<lparr>KMLParser.icons :=
            parsePoints_loop kmlDoc 0 (document_getElementsByTagName ''Point'' kmlDoc)
              (KMLParser.icons this)\<rparr>"

text \<open>
  \<^verbatim>\<open>KMLParser.parseKML\<close>: the returned object, the parser afterwards, and the lines
  written to the console.
\<close>

definition parseKML :: "KMLParser \<Rightarrow> node \<Rightarrow> parsed \<times> KMLParser \<times> console list" where
  "parseKML this kmlDoc =
     (let this1 = this\<lparr>KMLParser.tracks := [], KMLParser.icons := []\<rparr>;
          this2 = parseLineStrings this1 kmlDoc;
          this3 = parsePoints this2 kmlDoc
      in (\<lparr>parsed.tracks = KMLParser.tracks this3, icons = KMLParser.icons this3\<rparr>,
          this3,
          [ConsoleLog (''KMLParser: Loaded '' @ numberToString (length (KMLParser.tracks this3)) @
                       '' tracks and '' @ numberToString (length (KMLParser.icons this3)) @
                       '' icons'')]))"

text \<open>
  The two loaders. What they await comes from outside and is an input here: the outcome
  of \<^verbatim>\<open>file.text()\<close>, respectively of \<^verbatim>\<open>fetch(url)\<close> and \<^verbatim>\<open>response.text()\<close>
  (\<open>Inl\<close> a rejection), and the markup parser \<open>parseFromString\<close>. A result \<open>Inl e\<close> is
  the promise rejected with \<open>e\<close>.
\<close>

record response =
  ok :: bool
  status :: nat
  statusText :: string
  body :: "error + string"

text \<open>The \<^verbatim>\<open>catch\<close> block of both: log the error and throw it again.\<close>

definition catchLogRethrow ::
  "string \<Rightarrow> (error + parsed) \<times> KMLParser \<times> console list \<Rightarrow>
   (error + parsed) \<times> KMLParser \<times> console list" where
  "catchLogRethrow msg r =
     (case r of
        (Inl e, this, out) \<Rightarrow> (Inl e, this, out @ [ConsoleError msg e])
      | (Inr v, this, out) \<Rightarrow> (Inr v, this, out))"

text \<open>
  The statements that both loaders share once they hold the text: parse it, throw when
  the tree has a \<^verbatim>\<open>parsererror\<close> element, and return what \<open>parseKML\<close> returns
  otherwise.
\<close>

definition parseDocument ::
  "(string \<Rightarrow> node) \<Rightarrow> KMLParser \<Rightarrow> string \<Rightarrow> (error + parsed) \<times> KMLParser \<times> console list" where
  "parseDocument parseFromString this txt =
     (let kmlDoc = parseFromString txt in
      case item0 (document_getElementsByTagName ''parsererror'' kmlDoc) of
        Some parseError \<Rightarrow> (Inl (Error ''Invalid KML file format''), this, [])
      | None \<Rightarrow>
          (case parseKML this kmlDoc of (r, this', out) \<Rightarrow> (Inr r, this', out)))"

definition loadKMLFile ::
  "(string \<Rightarrow> node) \<Rightarrow> KMLParser \<Rightarrow> error + string \<Rightarrow>
   (error + parsed) \<times> KMLParser \<times> console list" where
  "loadKMLFile parseFromString this file =
     catchLogRethrow ''KMLParser: Error loading KML file:''
       (case file of
          Inl e \<Rightarrow> (Inl e, this, [])
        | Inr txt \<Rightarrow> parseDocument parseFromString this txt)"

definition loadKMLFromURL ::
  "(string \<Rightarrow> node) \<Rightarrow> KMLParser \<Rightarrow> error + response \<Rightarrow>
   (error + parsed) \<times> KMLParser \<times> console list" where
  "loadKMLFromURL parseFromString this fetched =
     catchLogRethrow ''KMLParser: Error loading KML from URL:''
       (case fetched of
          Inl e \<Rightarrow> (Inl e, this, [])
        | Inr resp \<Rightarrow>
            if \<not> ok resp then
              (Inl (Error (''HTTP '' @ numberToString (status resp) @ '': '' @ statusText resp)),
               this, [])
            else
              (case body resp of
                 Inl e \<Rightarrow> (Inl e, this, [])
               | Inr txt \<Rightarrow> parseDocument parseFromString this txt))"

section \<open>Notions of the specification\<close>

subsection \<open>Coordinate tuples\<close>

text \<open>
  The tuples of a coordinate text are the non-empty pieces between its white space; the
  fields of a tuple are its pieces between commas.
\<close>

definition tuples :: "string \<Rightarrow> string list" where
  "tuples coordinatesText = filter (\<lambda>t. t \<noteq> []) (splitWhitespace coordinatesText)"

definition altitudeOf :: "string list \<Rightarrow> number" where
  "altitudeOf parts = (if length parts > 2 then parseFloat (parts ! 2) else Finite 0)"

definition tuplePoint :: "string \<Rightarrow> point" where
  "tuplePoint t =
     \<lparr>lat = parseFloat (splitChar CHR '','' t ! 1),
      lon = parseFloat (splitChar CHR '','' t ! 0),
      alt = altitudeOf (splitChar CHR '','' t)\<rparr>"

text \<open>A tuple whose three numbers are finite, as the specification words the check.\<close>

definition isFinite :: "number \<Rightarrow> bool" where
  "isFinite x =
     (case x of
        Finite q \<Rightarrow> True
      | NegZero \<Rightarrow> True
      | NaN \<Rightarrow> False
      | PosInfinity \<Rightarrow> False
      | NegInfinity \<Rightarrow> False)"

definition acceptedAsSpecified :: "string \<Rightarrow> bool" where
  "acceptedAsSpecified t =
     (length (splitChar CHR '','' t) \<ge> 2 \<and>
      isFinite (parseFloat (splitChar CHR '','' t ! 0)) \<and>
      isFinite (parseFloat (splitChar CHR '','' t ! 1)) \<and>
      isFinite (altitudeOf (splitChar CHR '','' t)))"

text \<open>A tuple none of whose three numbers is \<open>NaN\<close>.\<close>

definition accepted :: "string \<Rightarrow> bool" where
  "accepted t =
     (length (splitChar CHR '','' t) \<ge> 2 \<and>
      \<not> isNaN (parseFloat (splitChar CHR '','' t ! 0)) \<and>
      \<not> isNaN (parseFloat (splitChar CHR '','' t ! 1)) \<and>
      \<not> isNaN (altitudeOf (splitChar CHR '','' t)))"

subsection \<open>Geometry nodes\<close>

text \<open>
  The trimmed text of the first \<^verbatim>\<open>coordinates\<close> element below a geometry node, empty
  when there is none; the node has blank coordinates when that element is absent or its
  text is empty or white space only.
\<close>

definition coordinatesText :: "node \<Rightarrow> string" where
  "coordinatesText geometry =
     (case item0 (getElementsByTagName ''coordinates'' geometry) of
        None \<Rightarrow> []
      | Some coordinatesElement \<Rightarrow> trim (textContent coordinatesElement))"

definition blankCoordinates :: "node \<Rightarrow> bool" where
  "blankCoordinates geometry =
     (case item0 (getElementsByTagName ''coordinates'' geometry) of
        None \<Rightarrow> True
      | Some coordinatesElement \<Rightarrow> list_all isWhiteSpace (textContent coordinatesElement))"

definition yieldsPoints :: "node \<Rightarrow> bool" where
  "yieldsPoints geometry = (parseCoordinates (coordinatesText geometry) \<noteq> [])"

text \<open>The Track and the Icon that the loops push for a node at index \<open>i\<close>.\<close>

definition trackOf :: "nat \<Rightarrow> element \<Rightarrow> track" where
  "trackOf i lineString =
     \<lparr>track.name =
        orElse (info.name (extractPlacemarkInfo (closest ''Placemark'' lineString) i))
          (''Track '' @ numberToString (i + 1)),
      description = info.description (extractPlacemarkInfo (closest ''Placemark'' lineString) i),
      points = parseCoordinates (coordinatesText (snd lineString)),
      originalIndex = i,
      style = info.style (extractPlacemarkInfo (closest ''Placemark'' lineString) i)\<rparr>"

definition iconOf :: "node \<Rightarrow> nat \<Rightarrow> element \<Rightarrow> icon" where
  "iconOf kmlDoc i pointElement =
     \<lparr>icon.name =
        orElse (info.name (extractPlacemarkInfo (closest ''Placemark'' pointElement) i))
          (''Point '' @ numberToString (i + 1)),
      description = info.description (extractPlacemarkInfo (closest ''Placemark'' pointElement) i),
      position = parseCoordinates (coordinatesText (snd pointElement)) ! 0,
      originalIndex = i,
      iconUrl = iconStyle.iconUrl (extractIconStyle kmlDoc (closest ''Placemark'' pointElement)),
      iconSize = iconStyle.iconSize (extractIconStyle kmlDoc (closest ''Placemark'' pointElement)),
      iconAnchor = iconStyle.iconAnchor (extractIconStyle kmlDoc (closest ''Placemark'' pointElement)),
      style = info.style (extractPlacemarkInfo (closest ''Placemark'' pointElement) i)\<rparr>"

subsection \<open>Styles\<close>

text \<open>
  The inline \<^verbatim>\<open>IconStyle\<close> block of a Placemark and the fields it gives; the style
  reference of the Placemark; the \<^verbatim>\<open>IconStyle\<close> block of the style it refers to; the
  image reference and the numeric scale of a block.
\<close>

definition noStyle :: iconStyle where
  "noStyle = \<lparr>iconStyle.iconUrl = None, iconSize = None, iconAnchor = None\<rparr>"

definition inlineIconStyle :: "node \<Rightarrow> node option" where
  "inlineIconStyle pm =
     (case item0 (getElementsByTagName ''Style'' pm) of
        None \<Rightarrow> None
      | Some styleElement \<Rightarrow> item0 (getElementsByTagName ''IconStyle'' styleElement))"

definition inlineStyle :: "node \<Rightarrow> iconStyle" where
  "inlineStyle pm =
     (case inlineIconStyle pm of None \<Rightarrow> noStyle | Some ie \<Rightarrow> readIconStyle ie noStyle)"

definition styleReference :: "node \<Rightarrow> string option" where
  "styleReference pm =
     (case item0 (getElementsByTagName ''styleUrl'' pm) of
        None \<Rightarrow> None
      | Some styleUrl \<Rightarrow> Some (trim (textContent styleUrl)))"

definition referencedIconStyle :: "node \<Rightarrow> node \<Rightarrow> node option" where
  "referencedIconStyle doc pm =
     (case styleReference pm of
        None \<Rightarrow> None
      | Some r \<Rightarrow>
          (case getElementById doc (removeFirst CHR ''#'' r) of
             None \<Rightarrow> None
           | Some referencedStyle \<Rightarrow> item0 (getElementsByTagName ''IconStyle'' referencedStyle)))"

definition hrefOf :: "node \<Rightarrow> string option" where
  "hrefOf ie =
     (case item0 (getElementsByTagName ''Icon'' ie) of
        None \<Rightarrow> None
      | Some iconElement \<Rightarrow>
          (case item0 (getElementsByTagName ''href'' iconElement) of
             None \<Rightarrow> None
           | Some href \<Rightarrow> Some (trim (textContent href))))"

definition scaleOf :: "node \<Rightarrow> number option" where
  "scaleOf ie =
     (case item0 (getElementsByTagName ''scale'' ie) of
        None \<Rightarrow> None
      | Some scale \<Rightarrow>
          if isNaN (parseFloat (textContent scale)) then None
          else Some (parseFloat (textContent scale)))"

text \<open>Stripping a leading \<^verbatim>\<open>#\<close>, and nothing else.\<close>

definition stripLeadingHash :: "string \<Rightarrow> string" where
  "stripLeadingHash r = (case r of [] \<Rightarrow> [] | c # rest \<Rightarrow> if c = CHR ''#'' then rest else r)"

text \<open>
  The \<^verbatim>\<open>IconStyle\<close> block that applies to a Placemark as the specification words the
  style resolution: the inline block when the Placemark has one; else, when it has a style
  reference, the block of the element whose identifier is the reference without a leading
  \<^verbatim>\<open>#\<close>.
\<close>

definition iconStyleAsSpecified :: "node \<Rightarrow> node \<Rightarrow> node option" where
  "iconStyleAsSpecified doc pm =
     (case inlineIconStyle pm of
        Some ie \<Rightarrow> Some ie
      | None \<Rightarrow>
          (case styleReference pm of
             None \<Rightarrow> None
           | Some r \<Rightarrow>
               (case getElementById doc (stripLeadingHash r) of
                  None \<Rightarrow> None
                | Some referencedStyle \<Rightarrow> item0 (getElementsByTagName ''IconStyle'' referencedStyle))))"

section \<open>Example documents\<close>

definition coordinatesElement :: "string \<Rightarrow> node" where
  "coordinatesElement txt = Element [] ''coordinates'' [] [Text txt]"

definition parser0 :: KMLParser where
  "parser0 = \<lparr>KMLParser.tracks = [], icons = []\<rparr>"

text \<open>A parser that holds the result of an earlier load.\<close>

definition parser_loaded :: KMLParser where
  "parser_loaded =
     \<lparr>KMLParser.tracks =
        [\<lparr>track.name = ''Stage 1'', description = None,
          points = [\<lparr>lat = Finite 2, lon = Finite 1, alt = Finite 0\<rparr>],
          originalIndex = 0, style = None\<rparr>],
      icons = []\<rparr>"

text \<open>Three LineStrings, the second with empty coordinates.\<close>

definition doc_threeLineStrings :: node where
  "doc_threeLineStrings =
     Element [] ''kml'' []
       [Element [] ''Placemark'' []
          [Element [] ''name'' [] [Text ''Stage 1''],
           Element [] ''LineString'' [] [coordinatesElement ''17.63,47.69,120 17.64,47.70'']],
        Element [] ''Placemark'' []
          [Element [] ''name'' [] [Text ''Stage 2''],
           Element [] ''LineString'' [] [coordinatesElement []]],
        Element [] ''Placemark'' []
          [Element [] ''name'' [] [Text ''Stage 3''],
           Element [] ''LineString'' [] [coordinatesElement ''17.70,47.80'']]]"

text \<open>
  A LineString and a Point outside any Placemark, then a LineString and a Point in
  Placemarks whose name is white space, respectively empty.
\<close>

definition doc_bare :: node where
  "doc_bare =
     Element [] ''kml'' []
       [Element [] ''LineString'' [] [coordinatesElement ''1,2 3,4''],
        Element [] ''Point'' [] [coordinatesElement ''5,6''],
        Element [] ''Placemark'' []
          [Element [] ''name'' [] [Text ''  ''],
           Element [] ''LineString'' [] [coordinatesElement ''7,8'']],
        Element [] ''Placemark'' []
          [Element [] ''name'' [] [],
           Element [] ''Point'' [] [coordinatesElement ''9,10'']]]"

text \<open>What a markup parser returns for text that is not well-formed.\<close>

definition doc_parsererror :: node where
  "doc_parsererror =
     Element [] ''kml'' []
       [Element [] ''LineString'' [] [coordinatesElement ''1,2 3,4''],
        Element [] ''parsererror'' [] [Text ''error on line 3 at column 1'']]"

definition response_ok :: "string \<Rightarrow> response" where
  "response_ok txt = \<lparr>ok = True, status = 200, statusText = ''OK'', body = Inr txt\<rparr>"

text \<open>
  A shared style with the identifier \<open>i\<close>, and a Placemark with a style reference, an
  inline style and a Point.
\<close>

definition sharedStyle :: "string \<Rightarrow> node list \<Rightarrow> node" where
  "sharedStyle i iconStyleChildren =
     Element [] ''Style'' [(''id'', i)] [Element [] ''IconStyle'' [] iconStyleChildren]"

definition iconHref :: "string \<Rightarrow> node" where
  "iconHref url = Element [] ''Icon'' [] [Element [] ''href'' [] [Text url]]"

definition scaleElement :: "string \<Rightarrow> node" where
  "scaleElement s = Element [] ''scale'' [] [Text s]"

definition pointPlacemark :: "string \<Rightarrow> node list \<Rightarrow> node" where
  "pointPlacemark styleUrl inlineIconStyleChildren =
     Element [] ''Placemark'' []
       [Element [] ''styleUrl'' [] [Text styleUrl],
        Element [] ''Style'' [] [Element [] ''IconStyle'' [] inlineIconStyleChildren],
        Element [] ''Point'' [] [coordinatesElement ''17.63,47.69'']]"

text \<open>Inline scale 2 and no inline image; the referenced style has the image.\<close>

definition pm_scaled :: node where
  "pm_scaled = pointPlacemark ''#s1'' [scaleElement ''2'']"

definition doc_scaled :: node where
  "doc_scaled = Element [] ''kml'' [] [sharedStyle ''s1'' [iconHref ''icon.png''], pm_scaled]"

text \<open>The same Placemark, the referenced style with a scale of its own.\<close>

definition doc_bothScaled :: node where
  "doc_bothScaled =
     Element [] ''kml'' []
       [sharedStyle ''s1'' [iconHref ''icon.png'', scaleElement ''3''], pm_scaled]"

text \<open>The Placemark of \<open>doc_scaled\<close> with the inline scale \<^verbatim>\<open>1e307\<close>.\<close>

definition pm_hugeScale :: node where
  "pm_hugeScale = pointPlacemark ''#s1'' [scaleElement ''1e307'']"

definition doc_hugeScale :: node where
  "doc_hugeScale = Element [] ''kml'' [] [sharedStyle ''s1'' [iconHref ''icon.png''], pm_hugeScale]"

text \<open>An inline image and an inline scale, beside a referenced style with both.\<close>

definition pm_inlineHref :: node where
  "pm_inlineHref = pointPlacemark ''#s1'' [iconHref ''inline.png'', scaleElement ''2'']"

definition doc_inlineHref :: node where
  "doc_inlineHref =
     Element [] ''kml'' []
       [sharedStyle ''s1'' [iconHref ''icon.png'', scaleElement ''3''], pm_inlineHref]"

text \<open>A style reference with a \<^verbatim>\<open>#\<close> that is not leading.\<close>

definition pm_innerHash :: node where
  "pm_innerHash = pointPlacemark ''s#1'' []"

definition doc_innerHash :: node where
  "doc_innerHash = Element [] ''kml'' [] [sharedStyle ''s1'' [iconHref ''icon.png''], pm_innerHash]"

text \<open>A style reference without any \<^verbatim>\<open>#\<close>.\<close>

definition pm_noHash :: node where
  "pm_noHash = pointPlacemark ''s1'' []"

text \<open>A style reference that resolves to nothing, beside an inline scale.\<close>

definition pm_unresolved :: node where
  "pm_unresolved = pointPlacemark ''#missing'' [scaleElement ''2'']"

definition doc_unresolved :: node where
  "doc_unresolved =
     Element [] ''kml'' [] [sharedStyle ''s1'' [iconHref ''icon.png''], pm_unresolved]"

section \<open>Strings and coordinates\<close>

lemma trim_eq_Nil_iff: "trim s = [] \<longleftrightarrow> list_all isWhiteSpace s"
proof -
  have "trim s = [] \<longleftrightarrow> (\<forall>c\<in>set (dropWhile isWhiteSpace s). isWhiteSpace c)"
    by (simp add: trim_def)
  also have "\<dots> \<longleftrightarrow> dropWhile isWhiteSpace s = []"
    using hd_dropWhile [of isWhiteSpace s]
    by (cases "dropWhile isWhiteSpace s") (auto simp del: dropWhile_eq_Nil_conv)
  finally show ?thesis by (simp add: list_all_iff)
qed

text \<open>No piece of a split on white space contains white space.\<close>

lemma splitWhitespace_pieces:
  "p \<in> set (splitWhitespace s) \<Longrightarrow> list_all (\<lambda>c. \<not> isWhiteSpace c) p"
proof (induction s arbitrary: p rule: splitWhitespace.induct)
  case (1 s)
  let ?piece = "takeWhile (\<lambda>c. \<not> isWhiteSpace c) s"
  have piece: "list_all (\<lambda>c. \<not> isWhiteSpace c) ?piece"
    by (auto simp: list_all_iff dest: set_takeWhileD)
  show ?case
  proof (cases "dropWhile (\<lambda>c. \<not> isWhiteSpace c) s = []")
    case True
    with "1.prems" piece show ?thesis
      by (simp add: splitWhitespace.simps [of s] del: dropWhile_eq_Nil_conv)
  next
    case False
    with "1.prems" have "p = ?piece \<or>
        p \<in> set (splitWhitespace (dropWhile isWhiteSpace (dropWhile (\<lambda>c. \<not> isWhiteSpace c) s)))"
      by (simp add: splitWhitespace.simps [of s] del: dropWhile_eq_Nil_conv)
    with piece "1.IH" [OF False] show ?thesis by blast
  qed
qed

lemma trim_piece_eq_Nil_iff:
  "p \<in> set (splitWhitespace s) \<Longrightarrow> trim p = [] \<longleftrightarrow> p = []"
  using splitWhitespace_pieces [of p s]
  by (cases p) (auto simp: trim_eq_Nil_iff)

lemma removeFirst_absent: "c \<notin> set s \<Longrightarrow> removeFirst c s = s"
  by (induction s) auto

lemma parseCoordinates_Nil: "parseCoordinates [] = []"
  by (simp add: parseCoordinates_def splitWhitespace.simps [of "[]"] trim_def)

text \<open>One turn of the loop pushes what the loop pushes for that piece alone.\<close>

lemma parseCoordinates_loop_step:
  "parseCoordinates_loop (c # cs) acc = parseCoordinates_loop cs (acc @ parseCoordinates_loop [c] [])"
  by (simp add: Let_def)

lemma parseCoordinates_loop_acc:
  "parseCoordinates_loop cs acc = acc @ parseCoordinates_loop cs []"
proof (induction cs arbitrary: acc)
  case Nil
  show ?case by simp
next
  case (Cons c cs)
  have "parseCoordinates_loop (c # cs) acc =
        (acc @ parseCoordinates_loop [c] []) @ parseCoordinates_loop cs []"
    by (subst parseCoordinates_loop_step, subst Cons.IH) (rule refl)
  also have "\<dots> = acc @ parseCoordinates_loop (c # cs) []"
    by (subst (2) parseCoordinates_loop_step, subst (2) Cons.IH) simp
  finally show ?case .
qed

lemma parseCoordinates_loop_single:
  "parseCoordinates_loop [c] [] = (if trim c \<noteq> [] \<and> accepted c then [tuplePoint c] else [])"
  by (simp add: Let_def accepted_def tuplePoint_def altitudeOf_def)

lemma parseCoordinates_loop_Cons:
  "parseCoordinates_loop (c # cs) [] = parseCoordinates_loop [c] [] @ parseCoordinates_loop cs []"
  by (subst parseCoordinates_loop_step, subst parseCoordinates_loop_acc) simp

lemma parseCoordinates_loop_append:
  "parseCoordinates_loop (cs @ ds) [] = parseCoordinates_loop cs [] @ parseCoordinates_loop ds []"
proof (induction cs)
  case Nil
  show ?case by simp
next
  case (Cons c cs)
  have "parseCoordinates_loop ((c # cs) @ ds) [] =
        parseCoordinates_loop [c] [] @ parseCoordinates_loop (cs @ ds) []"
    by (simp only: append_Cons parseCoordinates_loop_Cons [of c "cs @ ds"])
  also have "\<dots> = (parseCoordinates_loop [c] [] @ parseCoordinates_loop cs []) @
                    parseCoordinates_loop ds []"
    by (simp only: Cons.IH append_assoc)
  also have "\<dots> = parseCoordinates_loop (c # cs) [] @ parseCoordinates_loop ds []"
    by (simp only: parseCoordinates_loop_Cons [of c cs])
  finally show ?case .
qed

lemma parseCoordinates_loop_filter:
  "(\<And>c. c \<in> set cs \<Longrightarrow> (trim c = [] \<longleftrightarrow> c = [])) \<Longrightarrow>
   parseCoordinates_loop cs [] = map tuplePoint (filter accepted (filter (\<lambda>t. t \<noteq> []) cs))"
proof (induction cs)
  case Nil
  show ?case by simp
next
  case (Cons c cs)
  then show ?case
    by (subst parseCoordinates_loop_Cons)
       (simp add: parseCoordinates_loop_single del: parseCoordinates_loop.simps)
qed

section \<open>The two passes over the geometry nodes\<close>

lemma blankCoordinates_iff: "blankCoordinates g \<longleftrightarrow> coordinatesText g = []"
  by (simp add: blankCoordinates_def coordinatesText_def trim_eq_Nil_iff split: option.split)

lemma blank_not_yieldsPoints: "blankCoordinates g \<Longrightarrow> \<not> yieldsPoints g"
  by (simp add: blankCoordinates_iff yieldsPoints_def parseCoordinates_Nil)

lemma parseLineStrings_loop_step:
  "parseLineStrings_loop i (e # es) ts =
   parseLineStrings_loop (i + 1) es (ts @ (if yieldsPoints (snd e) then [trackOf i e] else []))"
  by (simp add: Let_def yieldsPoints_def coordinatesText_def trackOf_def parseCoordinates_Nil
      split: option.split)

text \<open>Each loop appends, in order, what the yielding nodes give at their indices.\<close>

lemma parseLineStrings_loop_eq:
  "parseLineStrings_loop i es ts =
   ts @ map (\<lambda>(k, e). trackOf k e) (filter (\<lambda>(k, e). yieldsPoints (snd e)) (List.enumerate i es))"
proof (induction es arbitrary: i ts)
  case Nil
  show ?case by simp
next
  case (Cons e es)
  show ?case
    by (subst parseLineStrings_loop_step, subst Cons.IH) simp
qed

lemma parsePoints_loop_step:
  "parsePoints_loop doc i (e # es) cs =
   parsePoints_loop doc (i + 1) es (cs @ (if yieldsPoints (snd e) then [iconOf doc i e] else []))"
  by (simp add: Let_def yieldsPoints_def coordinatesText_def iconOf_def parseCoordinates_Nil
      split: option.split)

lemma parsePoints_loop_eq:
  "parsePoints_loop doc i es cs =
   cs @ map (\<lambda>(k, e). iconOf doc k e) (filter (\<lambda>(k, e). yieldsPoints (snd e)) (List.enumerate i es))"
proof (induction es arbitrary: i cs)
  case Nil
  show ?case by simp
next
  case (Cons e es)
  show ?case
    by (subst parsePoints_loop_step, subst Cons.IH) simp
qed

lemma parseKML_tracks:
  "parsed.tracks (fst (parseKML this doc)) =
   map (\<lambda>(k, e). trackOf k e)
     (filter (\<lambda>(k, e). yieldsPoints (snd e))
        (List.enumerate 0 (document_getElementsByTagName ''LineString'' doc)))"
  by (simp add: parseKML_def Let_def parseLineStrings_def parsePoints_def parseLineStrings_loop_eq)

lemma parseKML_icons:
  "parsed.icons (fst (parseKML this doc)) =
   map (\<lambda>(k, e). iconOf doc k e)
     (filter (\<lambda>(k, e). yieldsPoints (snd e))
        (List.enumerate 0 (document_getElementsByTagName ''Point'' doc)))"
  by (simp add: parseKML_def Let_def parseLineStrings_def parsePoints_def parsePoints_loop_eq)

lemma enumerate_filter_fst:
  "map fst (filter (\<lambda>(k, x). P x) (List.enumerate i xs)) =
   filter (\<lambda>k. P (xs ! (k - i))) [i..<i + length xs]"
proof (induction xs arbitrary: i)
  case Nil
  show ?case by simp
next
  case (Cons x xs)
  have upt: "[i..<i + length (x # xs)] = i # [Suc i..<Suc i + length xs]"
    by (simp add: upt_conv_Cons del: upt_Suc)
  have "filter (\<lambda>k. P ((x # xs) ! (k - i))) [Suc i..<Suc i + length xs] =
        filter (\<lambda>k. P (xs ! (k - Suc i))) [Suc i..<Suc i + length xs]"
    by (rule filter_cong) (auto simp: nth_Cons' simp del: upt_Suc)
  with Cons.IH [of "Suc i"] show ?case
    unfolding upt by (simp del: upt_Suc)
qed

lemma track_emitted:
  assumes "i < length (document_getElementsByTagName ''LineString'' doc)"
    and "yieldsPoints (snd (document_getElementsByTagName ''LineString'' doc ! i))"
  shows "trackOf i (document_getElementsByTagName ''LineString'' doc ! i)
         \<in> set (parsed.tracks (fst (parseKML this doc)))"
proof -
  let ?lss = "document_getElementsByTagName ''LineString'' doc"
  have "(i, ?lss ! i) \<in> set (List.enumerate 0 ?lss)"
    using assms(1) by (simp add: in_set_enumerate_eq)
  with assms(2) show ?thesis
    by (force simp: parseKML_tracks)
qed

lemma icon_emitted:
  assumes "i < length (document_getElementsByTagName ''Point'' doc)"
    and "yieldsPoints (snd (document_getElementsByTagName ''Point'' doc ! i))"
  shows "iconOf doc i (document_getElementsByTagName ''Point'' doc ! i)
         \<in> set (parsed.icons (fst (parseKML this doc)))"
proof -
  let ?ps = "document_getElementsByTagName ''Point'' doc"
  have "(i, ?ps ! i) \<in> set (List.enumerate 0 ?ps)"
    using assms(1) by (simp add: in_set_enumerate_eq)
  with assms(2) show ?thesis
    by (force simp: parseKML_icons)
qed

lemma track_indices:
  "map track.originalIndex (parsed.tracks (fst (parseKML this doc))) =
   filter (\<lambda>k. yieldsPoints (snd (document_getElementsByTagName ''LineString'' doc ! k)))
     [0..<length (document_getElementsByTagName ''LineString'' doc)]"
proof -
  let ?lss = "document_getElementsByTagName ''LineString'' doc"
  have "map track.originalIndex (parsed.tracks (fst (parseKML this doc))) =
        map fst (filter (\<lambda>(k, e). yieldsPoints (snd e)) (List.enumerate 0 ?lss))"
    by (simp add: parseKML_tracks trackOf_def case_prod_beta comp_def)
  also have "\<dots> = filter (\<lambda>k. yieldsPoints (snd (?lss ! k))) [0..<length ?lss]"
    using enumerate_filter_fst [of "\<lambda>e. yieldsPoints (snd e)" 0 ?lss] by simp
  finally show ?thesis .
qed

subsection \<open>The enclosing Placemark\<close>

lemma closestIn_None: "list_all (\<lambda>a. \<not> hasLocalName t a) ns \<Longrightarrow> closestIn t ns = None"
  by (induction ns) auto

lemma hasTagName_not_colon:
  "hasTagName t n \<Longrightarrow> CHR '':'' \<notin> set t \<Longrightarrow> hasLocalName t n"
  by (cases n) (auto split: if_splits)

text \<open>A geometry node is no Placemark itself, so only its ancestors count.\<close>

lemma geometry_closest_None:
  assumes "hasTagName t (snd e)" and "CHR '':'' \<notin> set t" and "t \<noteq> ''Placemark''"
    and "list_all (\<lambda>a. \<not> hasLocalName ''Placemark'' a) (fst e)"
  shows "closest ''Placemark'' e = None"
proof -
  have "hasLocalName t (snd e)"
    using assms(1,2) by (rule hasTagName_not_colon)
  with assms(3) have "\<not> hasLocalName ''Placemark'' (snd e)"
    by (cases "snd e") auto
  with assms(4) show ?thesis
    by (simp add: closest_def closestIn_None)
qed

lemma document_elements_tag:
  "i < length (document_getElementsByTagName t doc) \<Longrightarrow>
   hasTagName t (snd (document_getElementsByTagName t doc ! i))"
  using nth_mem [of i "document_getElementsByTagName t doc"]
  by (simp add: document_getElementsByTagName_def)

lemma orElse_blank:
  "list_all isWhiteSpace s \<Longrightarrow> orElse (Some (trim s)) d = d"
  using trim_eq_Nil_iff [of s] by (simp add: orElse_def)

section \<open>Style resolution\<close>

lemma readIconStyle_iconUrl:
  "iconStyle.iconUrl (readIconStyle ie st) =
     (case hrefOf ie of Some u \<Rightarrow> Some u | None \<Rightarrow> iconStyle.iconUrl st)"
  by (simp add: readIconStyle_def hrefOf_def Let_def split: option.split)

lemma readIconStyle_iconSize:
  "iconStyle.iconSize (readIconStyle ie st) =
     (case scaleOf ie of
        Some s \<Rightarrow> Some (jsTimes (Finite 32) s, jsTimes (Finite 32) s)
      | None \<Rightarrow> iconStyle.iconSize st)"
  by (simp add: readIconStyle_def scaleOf_def Let_def split: option.split)

lemma readIconStyle_iconAnchor:
  "iconStyle.iconAnchor (readIconStyle ie st) =
     (case scaleOf ie of
        Some s \<Rightarrow>
          Some (jsDividedBy (jsTimes (Finite 32) s) (Finite 2),
                jsDividedBy (jsTimes (Finite 32) s) (Finite 2))
      | None \<Rightarrow> iconStyle.iconAnchor st)"
  by (simp add: readIconStyle_def scaleOf_def Let_def split: option.split)

text \<open>The two steps of \<open>extractIconStyle\<close>: the inline block, then the referenced one.\<close>

lemma extractIconStyle_eq:
  "extractIconStyle doc (Some pm) =
     (if truthy (iconStyle.iconUrl (inlineStyle pm)) then inlineStyle pm
      else (case referencedIconStyle doc pm of
              None \<Rightarrow> inlineStyle pm
            | Some ie \<Rightarrow> readIconStyle ie (inlineStyle pm)))"
  by (simp add: extractIconStyle_def inlineStyle_def inlineIconStyle_def referencedIconStyle_def
      styleReference_def noStyle_def Let_def split: option.split)

text \<open>The inline block that gives an image reference is the only one read.\<close>

lemma inlineStyle_iconUrl:
  "iconStyle.iconUrl (inlineStyle pm) = Option.bind (inlineIconStyle pm) hrefOf"
  by (simp add: inlineStyle_def noStyle_def readIconStyle_iconUrl split: option.split)

lemma extractIconStyle_inline:
  "inlineIconStyle pm = Some ie \<Longrightarrow> truthy (hrefOf ie) \<Longrightarrow>
   extractIconStyle doc (Some pm) = readIconStyle ie noStyle"
  by (simp add: extractIconStyle_eq inlineStyle_iconUrl) (simp add: inlineStyle_def)

text \<open>Which scale sizes the style of a Placemark.\<close>

lemma extractIconStyle_inline_scale:
  assumes "inlineIconStyle pm = Some ie" and "scaleOf ie = Some s"
    and "truthy (hrefOf ie) \<or> Option.bind (referencedIconStyle doc pm) scaleOf = None"
  shows "iconStyle.iconSize (extractIconStyle doc (Some pm)) =
           Some (jsTimes (Finite 32) s, jsTimes (Finite 32) s) \<and>
         iconStyle.iconAnchor (extractIconStyle doc (Some pm)) =
           Some (jsDividedBy (jsTimes (Finite 32) s) (Finite 2),
                 jsDividedBy (jsTimes (Finite 32) s) (Finite 2))"
proof -
  have inl: "iconStyle.iconSize (inlineStyle pm) =
        Some (jsTimes (Finite 32) s, jsTimes (Finite 32) s) \<and>
      iconStyle.iconAnchor (inlineStyle pm) =
        Some (jsDividedBy (jsTimes (Finite 32) s) (Finite 2),
              jsDividedBy (jsTimes (Finite 32) s) (Finite 2))"
    using assms(1,2) by (simp add: inlineStyle_def readIconStyle_iconSize readIconStyle_iconAnchor)
  show ?thesis
  proof (cases "truthy (hrefOf ie)")
    case True
    then show ?thesis
      using inl assms(1) by (simp add: extractIconStyle_eq inlineStyle_iconUrl)
  next
    case False
    with assms(3) have "Option.bind (referencedIconStyle doc pm) scaleOf = None"
      by simp
    then show ?thesis
      using inl assms(1)
      by (cases "referencedIconStyle doc pm")
        (simp_all add: extractIconStyle_eq inlineStyle_iconUrl readIconStyle_iconSize
          readIconStyle_iconAnchor)
  qed
qed

lemma extractIconStyle_referenced_scale:
  assumes "\<not> truthy (Option.bind (inlineIconStyle pm) hrefOf)"
    and "referencedIconStyle doc pm = Some re" and "scaleOf re = Some s"
  shows "iconStyle.iconSize (extractIconStyle doc (Some pm)) =
           Some (jsTimes (Finite 32) s, jsTimes (Finite 32) s) \<and>
         iconStyle.iconAnchor (extractIconStyle doc (Some pm)) =
           Some (jsDividedBy (jsTimes (Finite 32) s) (Finite 2),
                 jsDividedBy (jsTimes (Finite 32) s) (Finite 2))"
  using assms
  by (simp add: extractIconStyle_eq inlineStyle_iconUrl readIconStyle_iconSize
      readIconStyle_iconAnchor)

text \<open>The Icon of a Point carries the three fields that \<open>extractIconStyle\<close> returns.\<close>

lemma icon_style_fields:
  assumes "j < length (document_getElementsByTagName ''Point'' doc)"
    and "yieldsPoints (snd (document_getElementsByTagName ''Point'' doc ! j))"
    and "closest ''Placemark'' (document_getElementsByTagName ''Point'' doc ! j) = Some pm"
  shows "\<exists>c \<in> set (parsed.icons (fst (parseKML this doc))).
           icon.originalIndex c = j \<and>
           icon.iconUrl c = iconStyle.iconUrl (extractIconStyle doc (Some pm)) \<and>
           icon.iconSize c = iconStyle.iconSize (extractIconStyle doc (Some pm)) \<and>
           icon.iconAnchor c = iconStyle.iconAnchor (extractIconStyle doc (Some pm))"
proof -
  let ?e = "document_getElementsByTagName ''Point'' doc ! j"
  have "icon.originalIndex (iconOf doc j ?e) = j \<and>
        icon.iconUrl (iconOf doc j ?e) = iconStyle.iconUrl (extractIconStyle doc (Some pm)) \<and>
        icon.iconSize (iconOf doc j ?e) = iconStyle.iconSize (extractIconStyle doc (Some pm)) \<and>
        icon.iconAnchor (iconOf doc j ?e) = iconStyle.iconAnchor (extractIconStyle doc (Some pm))"
    by (simp add: iconOf_def assms(3))
  with icon_emitted [OF assms(1,2), of this] show ?thesis by blast
qed

section \<open>Coordinate parsing\<close>

text \<open>
  Claim C1 reads: a tuple is accepted if and only if it has at least two fields and
  longitude, latitude and altitude all parse as valid finite numbers. The check in the
  source is \<^verbatim>\<open>!isNaN\<close>, and \<^verbatim>\<open>parseFloat("Infinity")\<close> is no \<open>NaN\<close>: the one tuple
  of the text \<^verbatim>\<open>Infinity,0\<close> is not accepted in the sense of the claim, and yet it is
  in the output, with an infinite longitude.
\<close>

theorem parseCoordinates_finite_counterexample:
  "tuples ''Infinity,0'' = [''Infinity,0''] \<and> \<not> acceptedAsSpecified ''Infinity,0'' \<and>
   parseCoordinates ''Infinity,0'' = [\<lparr>lat = Finite 0, lon = PosInfinity, alt = Finite 0\<rparr>]"
  by code_simp

text \<open>
  Claim C1, amended: \<open>parseCoordinates\<close> splits the text on white space into tuples and
  each tuple on commas; a tuple is accepted if and only if it has at least two fields and
  \<^verbatim>\<open>parseFloat\<close> of field 0 (longitude), of field 1 (latitude) and of field 2 (altitude,
  0 when absent) are not \<open>NaN\<close> (a numeric prefix suffices, and an infinity is accepted).
  The output is the points of the accepted tuples, in the order of the text and with
  their multiplicity; a tuple that is not accepted is dropped and leaves the points
  before and after it as they are.
\<close>

theorem parseCoordinates_accepts:
  "parseCoordinates s = map tuplePoint (filter accepted (tuples s)) \<and>
   (\<not> accepted t \<longrightarrow>
      parseCoordinates_loop (before @ t # after) [] =
      parseCoordinates_loop before [] @ parseCoordinates_loop after [])"
proof -
  have "parseCoordinates s = map tuplePoint (filter accepted (tuples s))"
    unfolding parseCoordinates_def tuples_def
    by (rule parseCoordinates_loop_filter) (rule trim_piece_eq_Nil_iff)
  moreover have "parseCoordinates_loop (before @ t # after) [] =
      parseCoordinates_loop before [] @ parseCoordinates_loop after []" if "\<not> accepted t"
  proof -
    have "parseCoordinates_loop (before @ [t] @ after) [] =
          parseCoordinates_loop before [] @ parseCoordinates_loop [t] [] @
          parseCoordinates_loop after []"
      by (simp only: parseCoordinates_loop_append)
    with that show ?thesis
      by (simp add: parseCoordinates_loop_single del: parseCoordinates_loop.simps)
  qed
  ultimately show ?thesis by blast
qed

theorem parseCoordinates_accepts_witness:
  "splitWhitespace ''1,2 abc,5 3,4'' = [''1,2''] @ ''abc,5'' # [''3,4''] \<and>
   \<not> accepted ''abc,5'' \<and>
   parseCoordinates ''1,2 abc,5 3,4'' =
     [\<lparr>lat = Finite 2, lon = Finite 1, alt = Finite 0\<rparr>,
      \<lparr>lat = Finite 4, lon = Finite 3, alt = Finite 0\<rparr>]"
proof -
  have pieces: "splitWhitespace ''1,2 abc,5 3,4'' = [''1,2''] @ ''abc,5'' # [''3,4'']"
    by code_simp
  have dropped: "\<not> accepted ''abc,5''"
    by code_simp
  have before: "parseCoordinates_loop [''1,2''] [] = [\<lparr>lat = Finite 2, lon = Finite 1, alt = Finite 0\<rparr>]"
    by code_simp
  have after: "parseCoordinates_loop [''3,4''] [] = [\<lparr>lat = Finite 4, lon = Finite 3, alt = Finite 0\<rparr>]"
    by code_simp
  have "parseCoordinates_loop ([''1,2''] @ ''abc,5'' # [''3,4'']) [] =
        parseCoordinates_loop [''1,2''] [] @ parseCoordinates_loop [''3,4''] []"
    using parseCoordinates_accepts [where t = "''abc,5''" and before = "[''1,2'']"
        and after = "[''3,4'']", THEN conjunct2] dropped
    by (rule mp)
  then have "parseCoordinates ''1,2 abc,5 3,4'' =
     [\<lparr>lat = Finite 2, lon = Finite 1, alt = Finite 0\<rparr>,
      \<lparr>lat = Finite 4, lon = Finite 3, alt = Finite 0\<rparr>]"
    by (simp only: parseCoordinates_def pieces before after append.simps)
  with pieces dropped show ?thesis by (intro conjI)
qed

text \<open>
  Claim C5: the coordinate text \<^verbatim>\<open>17.63,47.69,120 17.64,47.70\<close> parses to exactly
  two points, the first with latitude 47.69, longitude 17.63 and altitude 120, the second
  with latitude 47.70, longitude 17.64 and altitude 0 (each the Number that the decimal
  denotes); and a LineString with this coordinate text gives a Track with these two points.
\<close>

theorem coordinates_example:
  "parseCoordinates ''17.63,47.69,120 17.64,47.70'' =
     [\<lparr>lat = toNumber (4769 / 100), lon = toNumber (1763 / 100), alt = Finite 120\<rparr>,
      \<lparr>lat = toNumber (4770 / 100), lon = toNumber (1764 / 100), alt = Finite 0\<rparr>] \<and>
   (i < length (document_getElementsByTagName ''LineString'' doc) \<and>
    coordinatesText (snd (document_getElementsByTagName ''LineString'' doc ! i)) =
      ''17.63,47.69,120 17.64,47.70'' \<longrightarrow>
    (\<exists>t \<in> set (parsed.tracks (fst (parseKML this doc))).
       track.originalIndex t = i \<and>
       track.points t =
         [\<lparr>lat = toNumber (4769 / 100), lon = toNumber (1763 / 100), alt = Finite 120\<rparr>,
          \<lparr>lat = toNumber (4770 / 100), lon = toNumber (1764 / 100), alt = Finite 0\<rparr>]))"
proof -
  let ?ps = "[\<lparr>lat = toNumber (4769 / 100), lon = toNumber (1763 / 100), alt = Finite 120\<rparr>,
      \<lparr>lat = toNumber (4770 / 100), lon = toNumber (1764 / 100), alt = Finite 0\<rparr>]"
  let ?lss = "document_getElementsByTagName ''LineString'' doc"
  have ps: "parseCoordinates ''17.63,47.69,120 17.64,47.70'' = ?ps"
    by code_simp
  have "\<exists>t \<in> set (parsed.tracks (fst (parseKML this doc))).
          track.originalIndex t = i \<and> track.points t = ?ps"
    if i: "i < length ?lss"
      and ct: "coordinatesText (snd (?lss ! i)) = ''17.63,47.69,120 17.64,47.70''"
  proof -
    have "yieldsPoints (snd (?lss ! i))"
      by (simp only: yieldsPoints_def ct ps) simp
    then have "trackOf i (?lss ! i) \<in> set (parsed.tracks (fst (parseKML this doc)))"
      using i by (simp add: track_emitted)
    moreover have "track.originalIndex (trackOf i (?lss ! i)) = i"
      by (simp add: trackOf_def)
    moreover have "track.points (trackOf i (?lss ! i)) = ?ps"
      by (simp add: trackOf_def ct ps)
    ultimately show ?thesis by blast
  qed
  with ps show ?thesis by blast
qed

theorem coordinates_example_witness:
  "\<exists>t \<in> set (parsed.tracks (fst (parseKML parser0 doc_threeLineStrings))).
     track.originalIndex t = 0 \<and>
     track.points t =
       [\<lparr>lat = toNumber (4769 / 100), lon = toNumber (1763 / 100), alt = Finite 120\<rparr>,
        \<lparr>lat = toNumber (4770 / 100), lon = toNumber (1764 / 100), alt = Finite 0\<rparr>]"
proof -
  have "0 < length (document_getElementsByTagName ''LineString'' doc_threeLineStrings)"
    by code_simp
  moreover have
    "coordinatesText (snd (document_getElementsByTagName ''LineString'' doc_threeLineStrings ! 0)) =
      ''17.63,47.69,120 17.64,47.70''"
    by code_simp
  ultimately show ?thesis
    using coordinates_example [where i = 0 and doc = doc_threeLineStrings and this = parser0]
    by simp
qed

section \<open>Tracks and Icons\<close>

text \<open>
  Claim C4: a LineString whose coordinates text is absent, empty or white space only
  gives no Track and no placeholder, and the index of the nodes met still advances: the
  \<open>originalIndex\<close> values of the Tracks are, in order, the positions among all
  LineStrings of those that yield points. In particular a document with three
  LineStrings, the second with blank coordinates and the other two yielding points,
  gives exactly two Tracks, with the indices 0 and 2.
\<close>

theorem lineString_blank_skipped_index_advances:
  assumes "document_getElementsByTagName ''LineString'' doc = lss"
  shows "(\<forall>k<length lss. blankCoordinates (snd (lss ! k)) \<longrightarrow>
            k \<notin> set (map track.originalIndex (parsed.tracks (fst (parseKML this doc))))) \<and>
         map track.originalIndex (parsed.tracks (fst (parseKML this doc))) =
           filter (\<lambda>k. yieldsPoints (snd (lss ! k))) [0..<length lss] \<and>
         ((\<exists>a b c. lss = [a, b, c] \<and> yieldsPoints (snd a) \<and> blankCoordinates (snd b) \<and>
                    yieldsPoints (snd c)) \<longrightarrow>
            map track.originalIndex (parsed.tracks (fst (parseKML this doc))) = [0, 2])"
proof -
  let ?ixs = "map track.originalIndex (parsed.tracks (fst (parseKML this doc)))"
  have ixs: "?ixs = filter (\<lambda>k. yieldsPoints (snd (lss ! k))) [0..<length lss]"
    using track_indices [of this doc] assms by simp
  have skipped: "\<forall>k<length lss. blankCoordinates (snd (lss ! k)) \<longrightarrow> k \<notin> set ?ixs"
    by (auto simp: ixs dest: blank_not_yieldsPoints)
  have three: "?ixs = [0, 2]"
    if "lss = [a, b, c]" "yieldsPoints (snd a)" "blankCoordinates (snd b)" "yieldsPoints (snd c)"
    for a b c
  proof -
    have "[0..<length lss] = [0, 1, 2]"
      using that(1) by (simp add: upt_rec)
    with that blank_not_yieldsPoints [of "snd b"] show ?thesis
      by (simp add: ixs)
  qed
  from skipped ixs three show ?thesis by blast
qed

theorem lineString_blank_skipped_witness:
  "map track.originalIndex (parsed.tracks (fst (parseKML parser0 doc_threeLineStrings))) = [0, 2] \<and>
   length (parsed.tracks (fst (parseKML parser0 doc_threeLineStrings))) = 2"
proof -
  let ?lss = "document_getElementsByTagName ''LineString'' doc_threeLineStrings"
  have lss: "?lss = [?lss ! 0, ?lss ! 1, ?lss ! 2]"
    by code_simp
  have "coordinatesText (snd (?lss ! 0)) = ''17.63,47.69,120 17.64,47.70''"
    by code_simp
  moreover have "parseCoordinates ''17.63,47.69,120 17.64,47.70'' \<noteq> []"
    by code_simp
  ultimately have a: "yieldsPoints (snd (?lss ! 0))"
    by (simp add: yieldsPoints_def)
  have b: "blankCoordinates (snd (?lss ! 1))"
    by code_simp
  have "coordinatesText (snd (?lss ! 2)) = ''17.70,47.80''"
    by code_simp
  moreover have "parseCoordinates ''17.70,47.80'' \<noteq> []"
    by code_simp
  ultimately have c: "yieldsPoints (snd (?lss ! 2))"
    by (simp add: yieldsPoints_def)
  have "\<exists>a b c. ?lss = [a, b, c] \<and> yieldsPoints (snd a) \<and> blankCoordinates (snd b) \<and>
          yieldsPoints (snd c)"
    using lss a b c by blast
  with lineString_blank_skipped_index_advances [OF refl, of doc_threeLineStrings parser0,
      THEN conjunct2, THEN conjunct2]
  have ixs: "map track.originalIndex (parsed.tracks (fst (parseKML parser0 doc_threeLineStrings))) =
      [0, 2]"
    by (rule mp)
  have "length (parsed.tracks (fst (parseKML parser0 doc_threeLineStrings))) =
        length (map track.originalIndex (parsed.tracks (fst (parseKML parser0 doc_threeLineStrings))))"
    by (simp only: length_map)
  also have "\<dots> = 2"
    by (simp only: ixs) simp
  finally show ?thesis
    using ixs by (intro conjI)
qed

text \<open>
  Claim C9: a LineString or Point that yields points and has no Placemark among its
  ancestors still gives a Track, respectively an Icon, named \<^verbatim>\<open>Track {i+1}\<close>,
  respectively \<^verbatim>\<open>Point {i+1}\<close>, for its index \<open>i\<close> among the nodes of its kind, with
  no description and no style reference.
\<close>

theorem geometry_without_placemark:
  "(i < length (document_getElementsByTagName ''LineString'' doc) \<and>
    yieldsPoints (snd (document_getElementsByTagName ''LineString'' doc ! i)) \<and>
    list_all (\<lambda>a. \<not> hasLocalName ''Placemark'' a)
      (fst (document_getElementsByTagName ''LineString'' doc ! i)) \<longrightarrow>
    (\<exists>t \<in> set (parsed.tracks (fst (parseKML this doc))).
       track.originalIndex t = i \<and> track.name t = ''Track '' @ numberToString (i + 1) \<and>
       track.description t = None \<and> track.style t = None)) \<and>
   (j < length (document_getElementsByTagName ''Point'' doc) \<and>
    yieldsPoints (snd (document_getElementsByTagName ''Point'' doc ! j)) \<and>
    list_all (\<lambda>a. \<not> hasLocalName ''Placemark'' a)
      (fst (document_getElementsByTagName ''Point'' doc ! j)) \<longrightarrow>
    (\<exists>c \<in> set (parsed.icons (fst (parseKML this doc))).
       icon.originalIndex c = j \<and> icon.name c = ''Point '' @ numberToString (j + 1) \<and>
       icon.description c = None \<and> icon.style c = None))"
proof -
  let ?lss = "document_getElementsByTagName ''LineString'' doc"
  let ?pts = "document_getElementsByTagName ''Point'' doc"
  have tracks: "\<exists>t \<in> set (parsed.tracks (fst (parseKML this doc))).
       track.originalIndex t = i \<and> track.name t = ''Track '' @ numberToString (i + 1) \<and>
       track.description t = None \<and> track.style t = None"
    if i: "i < length ?lss" and y: "yieldsPoints (snd (?lss ! i))"
      and anc: "list_all (\<lambda>a. \<not> hasLocalName ''Placemark'' a) (fst (?lss ! i))"
  proof -
    have "closest ''Placemark'' (?lss ! i) = None"
      using document_elements_tag [OF i] anc
      by (intro geometry_closest_None [of "''LineString''"]) simp_all
    then have "track.originalIndex (trackOf i (?lss ! i)) = i \<and>
        track.name (trackOf i (?lss ! i)) = ''Track '' @ numberToString (i + 1) \<and>
        track.description (trackOf i (?lss ! i)) = None \<and>
        track.style (trackOf i (?lss ! i)) = None"
      by (simp add: trackOf_def extractPlacemarkInfo_def orElse_def)
    with track_emitted [OF i y, of this] show ?thesis by blast
  qed
  have icons: "\<exists>c \<in> set (parsed.icons (fst (parseKML this doc))).
       icon.originalIndex c = j \<and> icon.name c = ''Point '' @ numberToString (j + 1) \<and>
       icon.description c = None \<and> icon.style c = None"
    if j: "j < length ?pts" and y: "yieldsPoints (snd (?pts ! j))"
      and anc: "list_all (\<lambda>a. \<not> hasLocalName ''Placemark'' a) (fst (?pts ! j))"
  proof -
    have "closest ''Placemark'' (?pts ! j) = None"
      using document_elements_tag [OF j] anc
      by (intro geometry_closest_None [of "''Point''"]) simp_all
    then have "icon.originalIndex (iconOf doc j (?pts ! j)) = j \<and>
        icon.name (iconOf doc j (?pts ! j)) = ''Point '' @ numberToString (j + 1) \<and>
        icon.description (iconOf doc j (?pts ! j)) = None \<and>
        icon.style (iconOf doc j (?pts ! j)) = None"
      by (simp add: iconOf_def extractPlacemarkInfo_def orElse_def)
    with icon_emitted [OF j y, of this] show ?thesis by blast
  qed
  from tracks icons show ?thesis by blast
qed

theorem geometry_without_placemark_witness:
  "(\<exists>t \<in> set (parsed.tracks (fst (parseKML parser0 doc_bare))).
       track.originalIndex t = 0 \<and> track.name t = ''Track 1'' \<and>
       track.description t = None \<and> track.style t = None) \<and>
   (\<exists>c \<in> set (parsed.icons (fst (parseKML parser0 doc_bare))).
       icon.originalIndex c = 0 \<and> icon.name c = ''Point 1'' \<and>
       icon.description c = None \<and> icon.style c = None)"
proof -
  have l: "0 < length (document_getElementsByTagName ''LineString'' doc_bare)"
    by code_simp
  have "coordinatesText (snd (document_getElementsByTagName ''LineString'' doc_bare ! 0)) = ''1,2 3,4''"
    by code_simp
  moreover have "parseCoordinates ''1,2 3,4'' \<noteq> []"
    by code_simp
  ultimately have ly: "yieldsPoints (snd (document_getElementsByTagName ''LineString'' doc_bare ! 0))"
    by (simp add: yieldsPoints_def)
  have la: "list_all (\<lambda>a. \<not> hasLocalName ''Placemark'' a)
      (fst (document_getElementsByTagName ''LineString'' doc_bare ! 0))"
    by code_simp
  have p: "0 < length (document_getElementsByTagName ''Point'' doc_bare)"
    by code_simp
  have "coordinatesText (snd (document_getElementsByTagName ''Point'' doc_bare ! 0)) = ''5,6''"
    by code_simp
  moreover have "parseCoordinates ''5,6'' \<noteq> []"
    by code_simp
  ultimately have py: "yieldsPoints (snd (document_getElementsByTagName ''Point'' doc_bare ! 0))"
    by (simp add: yieldsPoints_def)
  have pa: "list_all (\<lambda>a. \<not> hasLocalName ''Placemark'' a)
      (fst (document_getElementsByTagName ''Point'' doc_bare ! 0))"
    by code_simp
  have n: "numberToString (0 + 1) = ''1''"
    by code_simp
  from geometry_without_placemark [where i = 0 and j = 0 and doc = doc_bare and this = parser0]
    l ly la p py pa
  show ?thesis
    unfolding n by simp
qed

text \<open>
  Claim C10: when the nearest Placemark of a LineString or Point has a name element whose
  text is empty or white space only, the Track, respectively the Icon, gets the name
  \<^verbatim>\<open>Track {i+1}\<close>, respectively \<^verbatim>\<open>Point {i+1}\<close>, as it does without a name element.
\<close>

theorem blank_name_fallback:
  "(i < length (document_getElementsByTagName ''LineString'' doc) \<and>
    yieldsPoints (snd (document_getElementsByTagName ''LineString'' doc ! i)) \<and>
    closest ''Placemark'' (document_getElementsByTagName ''LineString'' doc ! i) = Some pm \<and>
    item0 (getElementsByTagName ''name'' pm) = Some nameElement \<and>
    list_all isWhiteSpace (textContent nameElement) \<longrightarrow>
    (\<exists>t \<in> set (parsed.tracks (fst (parseKML this doc))).
       track.originalIndex t = i \<and> track.name t = ''Track '' @ numberToString (i + 1))) \<and>
   (j < length (document_getElementsByTagName ''Point'' doc) \<and>
    yieldsPoints (snd (document_getElementsByTagName ''Point'' doc ! j)) \<and>
    closest ''Placemark'' (document_getElementsByTagName ''Point'' doc ! j) = Some pm' \<and>
    item0 (getElementsByTagName ''name'' pm') = Some nameElement' \<and>
    list_all isWhiteSpace (textContent nameElement') \<longrightarrow>
    (\<exists>c \<in> set (parsed.icons (fst (parseKML this doc))).
       icon.originalIndex c = j \<and> icon.name c = ''Point '' @ numberToString (j + 1)))"
proof -
  let ?lss = "document_getElementsByTagName ''LineString'' doc"
  let ?pts = "document_getElementsByTagName ''Point'' doc"
  have tracks: "\<exists>t \<in> set (parsed.tracks (fst (parseKML this doc))).
       track.originalIndex t = i \<and> track.name t = ''Track '' @ numberToString (i + 1)"
    if i: "i < length ?lss" and y: "yieldsPoints (snd (?lss ! i))"
      and pm: "closest ''Placemark'' (?lss ! i) = Some pm"
      and ne: "item0 (getElementsByTagName ''name'' pm) = Some nameElement"
      and ws: "list_all isWhiteSpace (textContent nameElement)"
  proof -
    have "track.originalIndex (trackOf i (?lss ! i)) = i \<and>
        track.name (trackOf i (?lss ! i)) = ''Track '' @ numberToString (i + 1)"
      by (simp add: trackOf_def extractPlacemarkInfo_def pm ne orElse_blank [OF ws])
    with track_emitted [OF i y, of this] show ?thesis by blast
  qed
  have icons: "\<exists>c \<in> set (parsed.icons (fst (parseKML this doc))).
       icon.originalIndex c = j \<and> icon.name c = ''Point '' @ numberToString (j + 1)"
    if j: "j < length ?pts" and y: "yieldsPoints (snd (?pts ! j))"
      and pm: "closest ''Placemark'' (?pts ! j) = Some pm'"
      and ne: "item0 (getElementsByTagName ''name'' pm') = Some nameElement'"
      and ws: "list_all isWhiteSpace (textContent nameElement')"
  proof -
    have "icon.originalIndex (iconOf doc j (?pts ! j)) = j \<and>
        icon.name (iconOf doc j (?pts ! j)) = ''Point '' @ numberToString (j + 1)"
      by (simp add: iconOf_def extractPlacemarkInfo_def pm ne orElse_blank [OF ws])
    with icon_emitted [OF j y, of this] show ?thesis by blast
  qed
  from tracks icons show ?thesis by blast
qed

theorem blank_name_fallback_witness:
  "(\<exists>t \<in> set (parsed.tracks (fst (parseKML parser0 doc_bare))).
       track.originalIndex t = 1 \<and> track.name t = ''Track 2'') \<and>
   (\<exists>c \<in> set (parsed.icons (fst (parseKML parser0 doc_bare))).
       icon.originalIndex c = 1 \<and> icon.name c = ''Point 2'')"
proof -
  let ?pm = "Element [] ''Placemark'' []
          [Element [] ''name'' [] [Text ''  ''],
           Element [] ''LineString'' [] [coordinatesElement ''7,8'']]"
  let ?pm' = "Element [] ''Placemark'' []
          [Element [] ''name'' [] [],
           Element [] ''Point'' [] [coordinatesElement ''9,10'']]"
  have l: "1 < length (document_getElementsByTagName ''LineString'' doc_bare)"
    by code_simp
  have "coordinatesText (snd (document_getElementsByTagName ''LineString'' doc_bare ! 1)) = ''7,8''"
    by code_simp
  moreover have "parseCoordinates ''7,8'' \<noteq> []"
    by code_simp
  ultimately have ly: "yieldsPoints (snd (document_getElementsByTagName ''LineString'' doc_bare ! 1))"
    by (simp add: yieldsPoints_def)
  have lp: "closest ''Placemark'' (document_getElementsByTagName ''LineString'' doc_bare ! 1) = Some ?pm"
    by code_simp
  have ln: "item0 (getElementsByTagName ''name'' ?pm) = Some (Element [] ''name'' [] [Text ''  ''])"
    by code_simp
  have lw: "list_all isWhiteSpace (textContent (Element [] ''name'' [] [Text ''  '']))"
    by code_simp
  have p: "1 < length (document_getElementsByTagName ''Point'' doc_bare)"
    by code_simp
  have "coordinatesText (snd (document_getElementsByTagName ''Point'' doc_bare ! 1)) = ''9,10''"
    by code_simp
  moreover have "parseCoordinates ''9,10'' \<noteq> []"
    by code_simp
  ultimately have py: "yieldsPoints (snd (document_getElementsByTagName ''Point'' doc_bare ! 1))"
    by (simp add: yieldsPoints_def)
  have pp: "closest ''Placemark'' (document_getElementsByTagName ''Point'' doc_bare ! 1) = Some ?pm'"
    by code_simp
  have pn: "item0 (getElementsByTagName ''name'' ?pm') = Some (Element [] ''name'' [] [])"
    by code_simp
  have pw: "list_all isWhiteSpace (textContent (Element [] ''name'' [] []))"
    by code_simp
  have n: "numberToString (1 + 1) = ''2''"
    by code_simp
  have t: "\<exists>t \<in> set (parsed.tracks (fst (parseKML parser0 doc_bare))).
       track.originalIndex t = 1 \<and> track.name t = ''Track '' @ numberToString (1 + 1)"
    using blank_name_fallback [where i = 1 and doc = doc_bare and this = parser0 and pm = ?pm
        and nameElement = "Element [] ''name'' [] [Text ''  '']", THEN conjunct1] l ly lp ln lw
    by (elim impE) (intro conjI, assumption+)
  have c: "\<exists>c \<in> set (parsed.icons (fst (parseKML parser0 doc_bare))).
       icon.originalIndex c = 1 \<and> icon.name c = ''Point '' @ numberToString (1 + 1)"
    using blank_name_fallback [where j = 1 and doc = doc_bare and this = parser0 and pm' = ?pm'
        and nameElement' = "Element [] ''name'' [] []", THEN conjunct2] p py pp pn pw
    by (elim impE) (intro conjI, assumption+)
  from t c show ?thesis
    unfolding n by simp
qed

section \<open>Parsing and loading a document\<close>

text \<open>
  Claim C8: \<open>parseKML\<close> is a function of the tree alone. What it returns, the parser it
  leaves and the line it logs do not depend on the parser it starts from, so a repeated
  call on the same tree, also after a parse of another tree, returns the same
  \<^verbatim>\<open>{tracks, icons}\<close>: both buffers are reset at the start of every call, and the parser
  afterwards holds just what was returned.
\<close>

theorem parseKML_deterministic:
  "parseKML this1 doc = parseKML this2 doc \<and>
   fst (parseKML (fst (snd (parseKML this1 other))) doc) = fst (parseKML this1 doc) \<and>
   KMLParser.tracks (fst (snd (parseKML this1 doc))) = parsed.tracks (fst (parseKML this1 doc)) \<and>
   KMLParser.icons (fst (snd (parseKML this1 doc))) = parsed.icons (fst (parseKML this1 doc))"
  by (simp add: parseKML_def Let_def parseLineStrings_def parsePoints_def)

text \<open>
  Claim C2: when the tree that the markup parser returns for the text holds a
  \<^verbatim>\<open>parsererror\<close> element, \<open>loadKMLFile\<close> and \<open>loadKMLFromURL\<close> (after a successful
  fetch) fail with the one error \<^verbatim>\<open>Invalid KML file format\<close>, which is logged once;
  they return no \<^verbatim>\<open>{tracks, icons}\<close>, and the parser keeps the tracks and icons it had.
\<close>

theorem malformed_document_fails:
  assumes "document_getElementsByTagName ''parsererror'' (parseFromString txt) \<noteq> []"
    and "ok resp" and "body resp = Inr txt"
  shows "loadKMLFile parseFromString this (Inr txt) =
           (Inl (Error ''Invalid KML file format''), this,
            [ConsoleError ''KMLParser: Error loading KML file:''
               (Error ''Invalid KML file format'')]) \<and>
         loadKMLFromURL parseFromString this (Inr resp) =
           (Inl (Error ''Invalid KML file format''), this,
            [ConsoleError ''KMLParser: Error loading KML from URL:''
               (Error ''Invalid KML file format'')])"
proof -
  have "item0 (document_getElementsByTagName ''parsererror'' (parseFromString txt)) \<noteq> None"
    using assms(1) by (simp add: item0_def split: list.split)
  then have "parseDocument parseFromString this txt =
      (Inl (Error ''Invalid KML file format''), this, [])"
    by (auto simp: parseDocument_def Let_def)
  then show ?thesis
    using assms(2,3) by (simp add: loadKMLFile_def loadKMLFromURL_def catchLogRethrow_def)
qed

theorem malformed_document_fails_witness:
  "loadKMLFile (\<lambda>txt. doc_parsererror) parser_loaded (Inr ''<kml>'') =
     (Inl (Error ''Invalid KML file format''), parser_loaded,
      [ConsoleError ''KMLParser: Error loading KML file:'' (Error ''Invalid KML file format'')]) \<and>
   loadKMLFromURL (\<lambda>txt. doc_parsererror) parser_loaded (Inr (response_ok ''<kml>'')) =
     (Inl (Error ''Invalid KML file format''), parser_loaded,
      [ConsoleError ''KMLParser: Error loading KML from URL:'' (Error ''Invalid KML file format'')])"
proof -
  have "document_getElementsByTagName ''parsererror'' doc_parsererror \<noteq> []"
    by code_simp
  moreover have "ok (response_ok ''<kml>'')" and "body (response_ok ''<kml>'') = Inr ''<kml>''"
    by (simp_all add: response_ok_def)
  ultimately show ?thesis
    by (rule malformed_document_fails [where parseFromString = "\<lambda>txt. doc_parsererror"])
qed

section \<open>Icon styles\<close>

text \<open>
  Claim C3 reads: the fields of the inline IconStyle take precedence unconditionally
  over those of the referenced style. The Placemark \<open>pm_scaled\<close> has an inline
  IconStyle with the scale 2 and no image, and a style reference. In \<open>doc_scaled\<close>
  the Icon has the image of the referenced style; in \<open>doc_bothScaled\<close>, where the
  referenced style has the scale 3 as well, the inline block gives the size (64, 64) and
  the Icon has the size (96, 96) of the referenced style.
\<close>

theorem inline_precedence_counterexample:
  "inlineIconStyle pm_scaled = Some (Element [] ''IconStyle'' [] [scaleElement ''2'']) \<and>
   styleReference pm_scaled = Some ''#s1'' \<and>
   iconStyle.iconUrl (inlineStyle pm_scaled) = None \<and>
   iconStyle.iconSize (inlineStyle pm_scaled) = Some (Finite 64, Finite 64) \<and>
   iconStyle.iconAnchor (inlineStyle pm_scaled) = Some (Finite 32, Finite 32) \<and>
   map icon.iconUrl (parsed.icons (fst (parseKML parser0 doc_scaled))) = [Some ''icon.png''] \<and>
   map icon.iconSize (parsed.icons (fst (parseKML parser0 doc_bothScaled))) =
     [Some (Finite 96, Finite 96)] \<and>
   map icon.iconAnchor (parsed.icons (fst (parseKML parser0 doc_bothScaled))) =
     [Some (Finite 48, Finite 48)]"
  by code_simp

text \<open>
  Claim C3, amended: the inline block that the code reads is the first IconStyle element
  below the first Style element of the Placemark. Whenever this block gives a non-empty
  image reference, its fields take precedence over those of the referenced style:
  whatever the reference resolves to, the style fields are those read from this block
  alone, and the Icon has its image reference and the size and anchor of its scale.
\<close>

theorem inline_precedence:
  "(inlineIconStyle pm = Some ie \<and> truthy (hrefOf ie) \<longrightarrow>
      extractIconStyle doc (Some pm) = readIconStyle ie noStyle \<and>
      iconStyle.iconUrl (extractIconStyle doc (Some pm)) = hrefOf ie) \<and>
   (j < length (document_getElementsByTagName ''Point'' doc) \<and>
    yieldsPoints (snd (document_getElementsByTagName ''Point'' doc ! j)) \<and>
    closest ''Placemark'' (document_getElementsByTagName ''Point'' doc ! j) = Some pm \<and>
    inlineIconStyle pm = Some ie \<and> truthy (hrefOf ie) \<longrightarrow>
    (\<exists>c \<in> set (parsed.icons (fst (parseKML this doc))).
       icon.originalIndex c = j \<and>
       icon.iconUrl c = hrefOf ie \<and>
       icon.iconSize c = iconStyle.iconSize (readIconStyle ie noStyle) \<and>
       icon.iconAnchor c = iconStyle.iconAnchor (readIconStyle ie noStyle)))"
proof -
  have url: "iconStyle.iconUrl (readIconStyle ie noStyle) = hrefOf ie"
    by (simp add: readIconStyle_iconUrl noStyle_def split: option.split)
  have inline: "extractIconStyle doc (Some pm) = readIconStyle ie noStyle \<and>
      iconStyle.iconUrl (extractIconStyle doc (Some pm)) = hrefOf ie"
    if "inlineIconStyle pm = Some ie" and "truthy (hrefOf ie)"
  proof -
    have "extractIconStyle doc (Some pm) = readIconStyle ie noStyle"
      using that by (rule extractIconStyle_inline)
    then show ?thesis
      by (simp add: url)
  qed
  have "\<exists>c \<in> set (parsed.icons (fst (parseKML this doc))).
       icon.originalIndex c = j \<and>
       icon.iconUrl c = hrefOf ie \<and>
       icon.iconSize c = iconStyle.iconSize (readIconStyle ie noStyle) \<and>
       icon.iconAnchor c = iconStyle.iconAnchor (readIconStyle ie noStyle)"
    if "j < length (document_getElementsByTagName ''Point'' doc)"
      and "yieldsPoints (snd (document_getElementsByTagName ''Point'' doc ! j))"
      and "closest ''Placemark'' (document_getElementsByTagName ''Point'' doc ! j) = Some pm"
      and "inlineIconStyle pm = Some ie" and "truthy (hrefOf ie)"
    using icon_style_fields [OF that(1,2,3), of this] inline [OF that(4,5)] by (simp add: url)
  with inline show ?thesis
    by blast
qed

theorem inline_precedence_witness:
  "extractIconStyle doc_inlineHref (Some pm_inlineHref) =
     \<lparr>iconStyle.iconUrl = Some ''inline.png'', iconSize = Some (Finite 64, Finite 64),
      iconAnchor = Some (Finite 32, Finite 32)\<rparr> \<and>
   (\<exists>c \<in> set (parsed.icons (fst (parseKML parser0 doc_inlineHref))).
       icon.originalIndex c = 0 \<and>
       icon.iconUrl c = Some ''inline.png'' \<and>
       icon.iconSize c = Some (Finite 64, Finite 64) \<and>
       icon.iconAnchor c = Some (Finite 32, Finite 32))"
proof -
  let ?ie = "Element [] ''IconStyle'' [] [iconHref ''inline.png'', scaleElement ''2'']"
  have i: "inlineIconStyle pm_inlineHref = Some ?ie"
    by code_simp
  have h: "hrefOf ?ie = Some ''inline.png''"
    by code_simp
  then have t: "truthy (hrefOf ?ie)"
    by (simp add: truthy_def)
  have r: "readIconStyle ?ie noStyle =
      \<lparr>iconStyle.iconUrl = Some ''inline.png'', iconSize = Some (Finite 64, Finite 64),
       iconAnchor = Some (Finite 32, Finite 32)\<rparr>"
    by code_simp
  have j: "0 < length (document_getElementsByTagName ''Point'' doc_inlineHref)"
    by code_simp
  have "coordinatesText (snd (document_getElementsByTagName ''Point'' doc_inlineHref ! 0)) =
      ''17.63,47.69''"
    by code_simp
  moreover have "parseCoordinates ''17.63,47.69'' \<noteq> []"
    by code_simp
  ultimately have y: "yieldsPoints (snd (document_getElementsByTagName ''Point'' doc_inlineHref ! 0))"
    by (simp add: yieldsPoints_def)
  have c: "closest ''Placemark'' (document_getElementsByTagName ''Point'' doc_inlineHref ! 0) =
      Some pm_inlineHref"
    by code_simp
  have "extractIconStyle doc_inlineHref (Some pm_inlineHref) = readIconStyle ?ie noStyle \<and>
      iconStyle.iconUrl (extractIconStyle doc_inlineHref (Some pm_inlineHref)) = hrefOf ?ie"
    using inline_precedence [where pm = pm_inlineHref and doc = doc_inlineHref and ie = ?ie,
        THEN conjunct1] i t
    by (elim impE) (intro conjI, assumption+)
  then have 1: "extractIconStyle doc_inlineHref (Some pm_inlineHref) = readIconStyle ?ie noStyle"
    by (rule conjunct1)
  have 2: "\<exists>c \<in> set (parsed.icons (fst (parseKML parser0 doc_inlineHref))).
       icon.originalIndex c = 0 \<and>
       icon.iconUrl c = hrefOf ?ie \<and>
       icon.iconSize c = iconStyle.iconSize (readIconStyle ?ie noStyle) \<and>
       icon.iconAnchor c = iconStyle.iconAnchor (readIconStyle ?ie noStyle)"
    using inline_precedence [where pm = pm_inlineHref and doc = doc_inlineHref and j = 0
        and this = parser0 and ie = ?ie, THEN conjunct2] j y c i t
    by (elim impE) (intro conjI, assumption+)
  from 1 2 show ?thesis
    unfolding r h by simp
qed

text \<open>
  Claim C6 reads: whenever an applicable IconStyle block carries the numeric scale \<open>s\<close>,
  the Icon has the size (32 s, 32 s) and the anchor (16 s, 16 s). In \<open>doc_bothScaled\<close> the
  block that the style resolution of the specification selects for the Placemark is the
  inline one, with the scale 2, and the Icon has the size (96, 96) and the anchor (48, 48)
  of the scale 3 of the referenced style. In \<open>doc_hugeScale\<close> the only scale is
  \<^verbatim>\<open>1e307\<close>: 32 s is an infinity, the anchor is its half, an infinity as well, and 16 s
  is finite.
\<close>

theorem icon_scale_counterexample:
  "iconStyleAsSpecified doc_bothScaled pm_scaled =
     Some (Element [] ''IconStyle'' [] [scaleElement ''2'']) \<and>
   scaleOf (Element [] ''IconStyle'' [] [scaleElement ''2'']) = Some (Finite 2) \<and>
   jsTimes (Finite 32) (Finite 2) = Finite 64 \<and>
   jsTimes (Finite 16) (Finite 2) = Finite 32 \<and>
   map icon.iconSize (parsed.icons (fst (parseKML parser0 doc_bothScaled))) =
     [Some (Finite 96, Finite 96)] \<and>
   map icon.iconAnchor (parsed.icons (fst (parseKML parser0 doc_bothScaled))) =
     [Some (Finite 48, Finite 48)] \<and>
   iconStyleAsSpecified doc_hugeScale pm_hugeScale =
     Some (Element [] ''IconStyle'' [] [scaleElement ''1e307'']) \<and>
   scaleOf (Element [] ''IconStyle'' [] [scaleElement ''1e307'']) = Some (parseFloat ''1e307'') \<and>
   Option.bind (referencedIconStyle doc_hugeScale pm_hugeScale) scaleOf = None \<and>
   isFinite (parseFloat ''1e307'') \<and>
   isFinite (jsTimes (Finite 16) (parseFloat ''1e307'')) \<and>
   map icon.iconSize (parsed.icons (fst (parseKML parser0 doc_hugeScale))) =
     [Some (PosInfinity, PosInfinity)] \<and>
   map icon.iconAnchor (parsed.icons (fst (parseKML parser0 doc_hugeScale))) =
     [Some (PosInfinity, PosInfinity)]"
proof -
  let ?ie = "Element [] ''IconStyle'' [] [scaleElement ''1e307'']"
  have both: "iconStyleAsSpecified doc_bothScaled pm_scaled =
     Some (Element [] ''IconStyle'' [] [scaleElement ''2'']) \<and>
   scaleOf (Element [] ''IconStyle'' [] [scaleElement ''2'']) = Some (Finite 2) \<and>
   jsTimes (Finite 32) (Finite 2) = Finite 64 \<and>
   jsTimes (Finite 16) (Finite 2) = Finite 32 \<and>
   map icon.iconSize (parsed.icons (fst (parseKML parser0 doc_bothScaled))) =
     [Some (Finite 96, Finite 96)] \<and>
   map icon.iconAnchor (parsed.icons (fst (parseKML parser0 doc_bothScaled))) =
     [Some (Finite 48, Finite 48)]"
    by code_simp
  have sel: "iconStyleAsSpecified doc_hugeScale pm_hugeScale = Some ?ie"
    by code_simp
  have ref: "Option.bind (referencedIconStyle doc_hugeScale pm_hugeScale) scaleOf = None"
    by code_simp
  have pf: "parseFloat ''1e307'' = Finite (of_int (8016673440035891 * 2 ^ 967))"
    by code_simp
  then have fin: "isFinite (parseFloat ''1e307'')"
    and nn: "\<not> isNaN (parseFloat ''1e307'')"
    by (simp_all add: isNaN_def isFinite_def)
  have sc: "scaleOf ?ie = Some (parseFloat ''1e307'')"
  proof -
    have "item0 (getElementsByTagName ''scale'' ?ie) = Some (scaleElement ''1e307'')"
      by code_simp
    moreover have "textContent (scaleElement ''1e307'') = ''1e307''"
      by code_simp
    ultimately show ?thesis
      using nn by (simp add: scaleOf_def)
  qed
  have "isFinite (jsTimes (Finite 16) (Finite (of_int (8016673440035891 * 2 ^ 967))))"
    by code_simp
  then have fin16: "isFinite (jsTimes (Finite 16) (parseFloat ''1e307''))"
    by (simp only: pf)
  have "jsTimes (Finite 32) (Finite (of_int (8016673440035891 * 2 ^ 967))) = PosInfinity"
    by code_simp
  then have inf32: "jsTimes (Finite 32) (parseFloat ''1e307'') = PosInfinity"
    by (simp only: pf)
  have half: "jsDividedBy PosInfinity (Finite 2) = PosInfinity"
    by code_simp
  have inl: "inlineIconStyle pm_hugeScale = Some ?ie"
    by code_simp
  have style: "iconStyle.iconSize (extractIconStyle doc_hugeScale (Some pm_hugeScale)) =
        Some (PosInfinity, PosInfinity) \<and>
      iconStyle.iconAnchor (extractIconStyle doc_hugeScale (Some pm_hugeScale)) =
        Some (PosInfinity, PosInfinity)"
    using extractIconStyle_inline_scale [OF inl sc disjI2, OF ref]
    by (simp only: inf32 half)
  define e where "e = document_getElementsByTagName ''Point'' doc_hugeScale ! 0"
  have "length (document_getElementsByTagName ''Point'' doc_hugeScale) = 1"
    by code_simp
  then have ps: "document_getElementsByTagName ''Point'' doc_hugeScale = [e]"
    unfolding e_def by (cases "document_getElementsByTagName ''Point'' doc_hugeScale") simp_all
  have "coordinatesText (snd (document_getElementsByTagName ''Point'' doc_hugeScale ! 0)) =
      ''17.63,47.69''"
    by code_simp
  moreover have "parseCoordinates ''17.63,47.69'' \<noteq> []"
    by code_simp
  ultimately have y: "yieldsPoints (snd e)"
    by (simp add: yieldsPoints_def e_def)
  have "closest ''Placemark'' (document_getElementsByTagName ''Point'' doc_hugeScale ! 0) =
      Some pm_hugeScale"
    by code_simp
  then have c: "closest ''Placemark'' e = Some pm_hugeScale"
    by (simp add: e_def)
  have icons: "parsed.icons (fst (parseKML parser0 doc_hugeScale)) = [iconOf doc_hugeScale 0 e]"
    by (simp add: parseKML_icons ps y)
  have "map icon.iconSize (parsed.icons (fst (parseKML parser0 doc_hugeScale))) =
      [Some (PosInfinity, PosInfinity)] \<and>
    map icon.iconAnchor (parsed.icons (fst (parseKML parser0 doc_hugeScale))) =
      [Some (PosInfinity, PosInfinity)]"
    using style by (simp add: icons iconOf_def c)
  with both sel sc ref fin fin16 show ?thesis
    by (simp only: simp_thms)
qed

text \<open>
  Claim C6, amended: an IconStyle block with the numeric scale \<open>s\<close> sets the size
  (32 s, 32 s) and the anchor (32 s / 2, 32 s / 2), half the size in the arithmetic of
  Numbers, the base size being the constant 32. The Icon of a Point has the size and the
  anchor of the scale of the inline block (the first IconStyle element below the first
  Style element of its Placemark) when that block gives a non-empty image reference or
  the referenced style has no IconStyle block with a numeric scale, and those of the scale
  of the IconStyle block of the referenced style when the inline block gives no image
  reference and the referenced block has a numeric scale. In particular, for a Point with
  the coordinates \<^verbatim>\<open>17.63,47.69\<close>, an inline IconStyle with the scale 2 and no image,
  and the style reference \<^verbatim>\<open>#s1\<close> to a style whose image is \<^verbatim>\<open>icon.png\<close>, the Icon
  has that image, the size (64, 64) and the anchor (32, 32).
\<close>

theorem icon_scale:
  "(scaleOf ie = Some s \<longrightarrow>
      iconStyle.iconSize (readIconStyle ie st) =
        Some (jsTimes (Finite 32) s, jsTimes (Finite 32) s) \<and>
      iconStyle.iconAnchor (readIconStyle ie st) =
        Some (jsDividedBy (jsTimes (Finite 32) s) (Finite 2),
              jsDividedBy (jsTimes (Finite 32) s) (Finite 2))) \<and>
   (j < length (document_getElementsByTagName ''Point'' doc) \<and>
    yieldsPoints (snd (document_getElementsByTagName ''Point'' doc ! j)) \<and>
    closest ''Placemark'' (document_getElementsByTagName ''Point'' doc ! j) = Some pm \<and>
    inlineIconStyle pm = Some ie \<and> scaleOf ie = Some s \<and>
    (truthy (hrefOf ie) \<or> Option.bind (referencedIconStyle doc pm) scaleOf = None) \<longrightarrow>
    (\<exists>c \<in> set (parsed.icons (fst (parseKML this doc))).
       icon.originalIndex c = j \<and>
       icon.iconSize c = Some (jsTimes (Finite 32) s, jsTimes (Finite 32) s) \<and>
       icon.iconAnchor c =
         Some (jsDividedBy (jsTimes (Finite 32) s) (Finite 2),
               jsDividedBy (jsTimes (Finite 32) s) (Finite 2)))) \<and>
   (j < length (document_getElementsByTagName ''Point'' doc) \<and>
    yieldsPoints (snd (document_getElementsByTagName ''Point'' doc ! j)) \<and>
    closest ''Placemark'' (document_getElementsByTagName ''Point'' doc ! j) = Some pm \<and>
    \<not> truthy (Option.bind (inlineIconStyle pm) hrefOf) \<and>
    referencedIconStyle doc pm = Some ie \<and> scaleOf ie = Some s \<longrightarrow>
    (\<exists>c \<in> set (parsed.icons (fst (parseKML this doc))).
       icon.originalIndex c = j \<and>
       icon.iconSize c = Some (jsTimes (Finite 32) s, jsTimes (Finite 32) s) \<and>
       icon.iconAnchor c =
         Some (jsDividedBy (jsTimes (Finite 32) s) (Finite 2),
               jsDividedBy (jsTimes (Finite 32) s) (Finite 2)))) \<and>
   parsed.icons (fst (parseKML this doc_scaled)) =
     [\<lparr>icon.name = ''Point 1'', description = None,
       position = \<lparr>lat = toNumber (4769 / 100), lon = toNumber (1763 / 100), alt = Finite 0\<rparr>,
       originalIndex = 0, iconUrl = Some ''icon.png'',
       iconSize = Some (Finite 64, Finite 64), iconAnchor = Some (Finite 32, Finite 32),
       style = Some ''#s1''\<rparr>]"
proof -
  let ?size = "Some (jsTimes (Finite 32) s, jsTimes (Finite 32) s)"
  let ?anchor = "Some (jsDividedBy (jsTimes (Finite 32) s) (Finite 2),
      jsDividedBy (jsTimes (Finite 32) s) (Finite 2))"
  have block: "iconStyle.iconSize (readIconStyle ie st) = ?size \<and>
      iconStyle.iconAnchor (readIconStyle ie st) = ?anchor"
    if "scaleOf ie = Some s"
    using that by (simp add: readIconStyle_iconSize readIconStyle_iconAnchor)
  have icon: "\<exists>c \<in> set (parsed.icons (fst (parseKML this doc))).
       icon.originalIndex c = j \<and> icon.iconSize c = ?size \<and> icon.iconAnchor c = ?anchor"
    if "j < length (document_getElementsByTagName ''Point'' doc)"
      and "yieldsPoints (snd (document_getElementsByTagName ''Point'' doc ! j))"
      and "closest ''Placemark'' (document_getElementsByTagName ''Point'' doc ! j) = Some pm"
      and "iconStyle.iconSize (extractIconStyle doc (Some pm)) = ?size \<and>
        iconStyle.iconAnchor (extractIconStyle doc (Some pm)) = ?anchor"
  proof -
    from icon_style_fields [OF that(1,2,3), of this]
    obtain c where "c \<in> set (parsed.icons (fst (parseKML this doc)))"
      and "icon.originalIndex c = j"
      and "icon.iconSize c = iconStyle.iconSize (extractIconStyle doc (Some pm))"
      and "icon.iconAnchor c = iconStyle.iconAnchor (extractIconStyle doc (Some pm))"
      by blast
    then show ?thesis
      using that(4) by (intro bexI [of _ c]) simp_all
  qed
  have inline: "\<exists>c \<in> set (parsed.icons (fst (parseKML this doc))).
       icon.originalIndex c = j \<and> icon.iconSize c = ?size \<and> icon.iconAnchor c = ?anchor"
    if "j < length (document_getElementsByTagName ''Point'' doc)"
      and "yieldsPoints (snd (document_getElementsByTagName ''Point'' doc ! j))"
      and "closest ''Placemark'' (document_getElementsByTagName ''Point'' doc ! j) = Some pm"
      and "inlineIconStyle pm = Some ie" and "scaleOf ie = Some s"
      and "truthy (hrefOf ie) \<or> Option.bind (referencedIconStyle doc pm) scaleOf = None"
    using icon [OF that(1,2,3)] extractIconStyle_inline_scale [OF that(4,5,6)] by simp
  have referenced: "\<exists>c \<in> set (parsed.icons (fst (parseKML this doc))).
       icon.originalIndex c = j \<and> icon.iconSize c = ?size \<and> icon.iconAnchor c = ?anchor"
    if "j < length (document_getElementsByTagName ''Point'' doc)"
      and "yieldsPoints (snd (document_getElementsByTagName ''Point'' doc ! j))"
      and "closest ''Placemark'' (document_getElementsByTagName ''Point'' doc ! j) = Some pm"
      and "\<not> truthy (Option.bind (inlineIconStyle pm) hrefOf)"
      and "referencedIconStyle doc pm = Some ie" and "scaleOf ie = Some s"
    using icon [OF that(1,2,3)] extractIconStyle_referenced_scale [OF that(4,5,6)] by simp
  have "parsed.icons (fst (parseKML parser0 doc_scaled)) =
     [\<lparr>icon.name = ''Point 1'', description = None,
       position = \<lparr>lat = toNumber (4769 / 100), lon = toNumber (1763 / 100), alt = Finite 0\<rparr>,
       originalIndex = 0, iconUrl = Some ''icon.png'',
       iconSize = Some (Finite 64, Finite 64), iconAnchor = Some (Finite 32, Finite 32),
       style = Some ''#s1''\<rparr>]"
    by code_simp
  then have example: "parsed.icons (fst (parseKML this doc_scaled)) =
     [\<lparr>icon.name = ''Point 1'', description = None,
       position = \<lparr>lat = toNumber (4769 / 100), lon = toNumber (1763 / 100), alt = Finite 0\<rparr>,
       originalIndex = 0, iconUrl = Some ''icon.png'',
       iconSize = Some (Finite 64, Finite 64), iconAnchor = Some (Finite 32, Finite 32),
       style = Some ''#s1''\<rparr>]"
    by (simp only: parseKML_icons)
  from block inline referenced example show ?thesis
    by (intro conjI impI) (simp_all only: simp_thms)
qed

theorem icon_scale_witness:
  "iconStyle.iconSize (readIconStyle (Element [] ''IconStyle'' [] [scaleElement ''2'']) noStyle) =
     Some (Finite 64, Finite 64) \<and>
   iconStyle.iconAnchor (readIconStyle (Element [] ''IconStyle'' [] [scaleElement ''2'']) noStyle) =
     Some (Finite 32, Finite 32) \<and>
   (\<exists>c \<in> set (parsed.icons (fst (parseKML parser0 doc_scaled))).
       icon.originalIndex c = 0 \<and>
       icon.iconSize c = Some (Finite 64, Finite 64) \<and>
       icon.iconAnchor c = Some (Finite 32, Finite 32)) \<and>
   (\<exists>c \<in> set (parsed.icons (fst (parseKML parser0 doc_bothScaled))).
       icon.originalIndex c = 0 \<and>
       icon.iconSize c = Some (Finite 96, Finite 96) \<and>
       icon.iconAnchor c = Some (Finite 48, Finite 48))"
proof -
  let ?ie = "Element [] ''IconStyle'' [] [scaleElement ''2'']"
  let ?re = "Element [] ''IconStyle'' [] [iconHref ''icon.png'', scaleElement ''3'']"
  have s: "scaleOf ?ie = Some (Finite 2)"
    by code_simp
  have s3: "scaleOf ?re = Some (Finite 3)"
    by code_simp
  have t2: "jsTimes (Finite 32) (Finite 2) = Finite 64"
    and h2: "jsDividedBy (Finite 64) (Finite 2) = Finite 32"
    and t3: "jsTimes (Finite 32) (Finite 3) = Finite 96"
    and h3: "jsDividedBy (Finite 96) (Finite 2) = Finite 48"
    by code_simp+
  have i: "inlineIconStyle pm_scaled = Some ?ie"
    by code_simp
  have nh: "\<not> truthy (Option.bind (inlineIconStyle pm_scaled) hrefOf)"
    by code_simp
  have r: "Option.bind (referencedIconStyle doc_scaled pm_scaled) scaleOf = None"
    by code_simp
  have r3: "referencedIconStyle doc_bothScaled pm_scaled = Some ?re"
    by code_simp
  have j: "0 < length (document_getElementsByTagName ''Point'' doc_scaled)"
    and j3: "0 < length (document_getElementsByTagName ''Point'' doc_bothScaled)"
    by code_simp+
  have ct: "coordinatesText (snd (document_getElementsByTagName ''Point'' doc_scaled ! 0)) =
      ''17.63,47.69''"
    and ct3: "coordinatesText (snd (document_getElementsByTagName ''Point'' doc_bothScaled ! 0)) =
      ''17.63,47.69''"
    by code_simp+
  have "parseCoordinates ''17.63,47.69'' \<noteq> []"
    by code_simp
  with ct ct3 have y: "yieldsPoints (snd (document_getElementsByTagName ''Point'' doc_scaled ! 0))"
    and y3: "yieldsPoints (snd (document_getElementsByTagName ''Point'' doc_bothScaled ! 0))"
    by (simp_all add: yieldsPoints_def)
  have c: "closest ''Placemark'' (document_getElementsByTagName ''Point'' doc_scaled ! 0) =
      Some pm_scaled"
    and c3: "closest ''Placemark'' (document_getElementsByTagName ''Point'' doc_bothScaled ! 0) =
      Some pm_scaled"
    by code_simp+
  have "iconStyle.iconSize (readIconStyle ?ie noStyle) =
        Some (jsTimes (Finite 32) (Finite 2), jsTimes (Finite 32) (Finite 2)) \<and>
      iconStyle.iconAnchor (readIconStyle ?ie noStyle) =
        Some (jsDividedBy (jsTimes (Finite 32) (Finite 2)) (Finite 2),
              jsDividedBy (jsTimes (Finite 32) (Finite 2)) (Finite 2))"
    using icon_scale [where ie = ?ie and s = "Finite 2" and st = noStyle, THEN conjunct1] s
    by (rule mp)
  then have 1: "iconStyle.iconSize (readIconStyle ?ie noStyle) = Some (Finite 64, Finite 64) \<and>
      iconStyle.iconAnchor (readIconStyle ?ie noStyle) = Some (Finite 32, Finite 32)"
    by (simp only: t2 h2)
  have "\<exists>c \<in> set (parsed.icons (fst (parseKML parser0 doc_scaled))).
       icon.originalIndex c = 0 \<and>
       icon.iconSize c = Some (jsTimes (Finite 32) (Finite 2), jsTimes (Finite 32) (Finite 2)) \<and>
       icon.iconAnchor c =
         Some (jsDividedBy (jsTimes (Finite 32) (Finite 2)) (Finite 2),
               jsDividedBy (jsTimes (Finite 32) (Finite 2)) (Finite 2))"
    using icon_scale [where j = 0 and doc = doc_scaled and pm = pm_scaled and this = parser0
        and ie = ?ie and s = "Finite 2", THEN conjunct2, THEN conjunct1] j y c i s r
    by (elim impE) (intro conjI disjI2, assumption+)
  then have 2: "\<exists>c \<in> set (parsed.icons (fst (parseKML parser0 doc_scaled))).
       icon.originalIndex c = 0 \<and>
       icon.iconSize c = Some (Finite 64, Finite 64) \<and>
       icon.iconAnchor c = Some (Finite 32, Finite 32)"
    by (simp only: t2 h2)
  have "\<exists>c \<in> set (parsed.icons (fst (parseKML parser0 doc_bothScaled))).
       icon.originalIndex c = 0 \<and>
       icon.iconSize c = Some (jsTimes (Finite 32) (Finite 3), jsTimes (Finite 32) (Finite 3)) \<and>
       icon.iconAnchor c =
         Some (jsDividedBy (jsTimes (Finite 32) (Finite 3)) (Finite 2),
               jsDividedBy (jsTimes (Finite 32) (Finite 3)) (Finite 2))"
    using icon_scale [where j = 0 and doc = doc_bothScaled and pm = pm_scaled and this = parser0
        and ie = ?re and s = "Finite 3", THEN conjunct2, THEN conjunct2, THEN conjunct1]
      j3 y3 c3 nh r3 s3
    by (elim impE) (intro conjI, assumption+)
  then have 3: "\<exists>c \<in> set (parsed.icons (fst (parseKML parser0 doc_bothScaled))).
       icon.originalIndex c = 0 \<and>
       icon.iconSize c = Some (Finite 96, Finite 96) \<and>
       icon.iconAnchor c = Some (Finite 48, Finite 48)"
    by (simp only: t3 h3)
  from 1 2 3 show ?thesis
    by (simp only: simp_thms)
qed

text \<open>
  Claim C7 reads: the reference string loses a leading \<^verbatim>\<open>#\<close>, and only a leading one,
  before the lookup, and a failed lookup leaves all icon-style fields absent. The
  Placemark of \<open>doc_innerHash\<close> refers to \<^verbatim>\<open>s#1\<close>: no element has this identifier, and
  yet the Icon has the image of the style \<^verbatim>\<open>s1\<close>. The Placemark of \<open>doc_unresolved\<close>
  refers to \<^verbatim>\<open>#missing\<close>, which no element has, and its Icon still has the size and
  anchor of its inline scale.
\<close>

theorem style_reference_counterexample:
  "styleReference pm_innerHash = Some ''s#1'' \<and>
   \<not> truthy (iconStyle.iconUrl (inlineStyle pm_innerHash)) \<and>
   getElementById doc_innerHash (stripLeadingHash ''s#1'') = None \<and>
   map icon.iconUrl (parsed.icons (fst (parseKML parser0 doc_innerHash))) = [Some ''icon.png''] \<and>
   styleReference pm_unresolved = Some ''#missing'' \<and>
   \<not> truthy (iconStyle.iconUrl (inlineStyle pm_unresolved)) \<and>
   getElementById doc_unresolved (stripLeadingHash ''#missing'') = None \<and>
   map icon.iconSize (parsed.icons (fst (parseKML parser0 doc_unresolved))) =
     [Some (Finite 64, Finite 64)] \<and>
   map icon.iconAnchor (parsed.icons (fst (parseKML parser0 doc_unresolved))) =
     [Some (Finite 32, Finite 32)]"
  by code_simp

text \<open>
  Claim C7, amended: for a Placemark whose inline style gives no image reference (or an
  empty one) and whose style reference, trimmed, is \<open>r\<close>, the first \<^verbatim>\<open>#\<close> of \<open>r\<close> is
  removed wherever it stands (a leading one when \<open>r\<close> starts with it, none when \<open>r\<close> has
  none) and the result is looked up as an identifier in the whole document. When an
  element is found and its IconStyle block has an image reference, that becomes the
  image reference of the Icon; when the lookup fails, the fields stay as the inline
  style left them (no image reference; size and anchor only from an inline scale), and
  nothing is raised.
\<close>

theorem style_reference_lookup:
  assumes "\<not> truthy (iconStyle.iconUrl (inlineStyle pm))" and "styleReference pm = Some r"
  shows "(getElementById doc (removeFirst CHR ''#'' r) = None \<longrightarrow>
            extractIconStyle doc (Some pm) = inlineStyle pm) \<and>
         (getElementById doc (removeFirst CHR ''#'' r) = Some n \<and>
          item0 (getElementsByTagName ''IconStyle'' n) = Some ie \<and> hrefOf ie = Some u \<longrightarrow>
            iconStyle.iconUrl (extractIconStyle doc (Some pm)) = Some u) \<and>
         (r = CHR ''#'' # r' \<longrightarrow> removeFirst CHR ''#'' r = r') \<and>
         (CHR ''#'' \<notin> set r \<longrightarrow> removeFirst CHR ''#'' r = r) \<and>
         (j < length (document_getElementsByTagName ''Point'' doc) \<and>
          yieldsPoints (snd (document_getElementsByTagName ''Point'' doc ! j)) \<and>
          closest ''Placemark'' (document_getElementsByTagName ''Point'' doc ! j) = Some pm \<longrightarrow>
          (\<exists>c \<in> set (parsed.icons (fst (parseKML this doc))).
             icon.originalIndex c = j \<and>
             icon.iconUrl c = iconStyle.iconUrl (extractIconStyle doc (Some pm)) \<and>
             icon.iconSize c = iconStyle.iconSize (extractIconStyle doc (Some pm)) \<and>
             icon.iconAnchor c = iconStyle.iconAnchor (extractIconStyle doc (Some pm))))"
proof -
  have failed: "extractIconStyle doc (Some pm) = inlineStyle pm"
    if "getElementById doc (removeFirst CHR ''#'' r) = None"
    using that assms by (simp add: extractIconStyle_eq referencedIconStyle_def)
  have found: "iconStyle.iconUrl (extractIconStyle doc (Some pm)) = Some u"
    if "getElementById doc (removeFirst CHR ''#'' r) = Some n"
      and "item0 (getElementsByTagName ''IconStyle'' n) = Some ie" and "hrefOf ie = Some u"
    using that assms by (simp add: extractIconStyle_eq referencedIconStyle_def readIconStyle_iconUrl)
  have leading: "removeFirst CHR ''#'' r = r'" if "r = CHR ''#'' # r'"
    using that by simp
  have absent: "removeFirst CHR ''#'' r = r" if "CHR ''#'' \<notin> set r"
    using that by (rule removeFirst_absent)
  have icon: "\<exists>c \<in> set (parsed.icons (fst (parseKML this doc))).
             icon.originalIndex c = j \<and>
             icon.iconUrl c = iconStyle.iconUrl (extractIconStyle doc (Some pm)) \<and>
             icon.iconSize c = iconStyle.iconSize (extractIconStyle doc (Some pm)) \<and>
             icon.iconAnchor c = iconStyle.iconAnchor (extractIconStyle doc (Some pm))"
    if "j < length (document_getElementsByTagName ''Point'' doc)"
      and "yieldsPoints (snd (document_getElementsByTagName ''Point'' doc ! j))"
      and "closest ''Placemark'' (document_getElementsByTagName ''Point'' doc ! j) = Some pm"
    using that by (rule icon_style_fields)
  from failed found leading absent icon show ?thesis by blast
qed

theorem style_reference_lookup_witness:
  "iconStyle.iconUrl (extractIconStyle doc_scaled (Some pm_scaled)) = Some ''icon.png'' \<and>
   removeFirst CHR ''#'' ''#s1'' = ''s1'' \<and>
   (\<exists>c \<in> set (parsed.icons (fst (parseKML parser0 doc_scaled))).
      icon.originalIndex c = 0 \<and>
      icon.iconUrl c = iconStyle.iconUrl (extractIconStyle doc_scaled (Some pm_scaled))) \<and>
   extractIconStyle doc_unresolved (Some pm_unresolved) =
     \<lparr>iconStyle.iconUrl = None, iconSize = Some (Finite 64, Finite 64),
      iconAnchor = Some (Finite 32, Finite 32)\<rparr> \<and>
   removeFirst CHR ''#'' ''s1'' = ''s1''"
proof -
  let ?ie = "Element [] ''IconStyle'' [] [iconHref ''icon.png'']"
  have f: "\<not> truthy (iconStyle.iconUrl (inlineStyle pm_scaled))"
    by code_simp
  have r: "styleReference pm_scaled = Some ''#s1''"
    by code_simp
  note scaled = style_reference_lookup [OF f r, where doc = doc_scaled]
  have n: "getElementById doc_scaled (removeFirst CHR ''#'' ''#s1'') =
      Some (sharedStyle ''s1'' [iconHref ''icon.png''])"
    by code_simp
  have ie: "item0 (getElementsByTagName ''IconStyle'' (sharedStyle ''s1'' [iconHref ''icon.png''])) =
      Some ?ie"
    by code_simp
  have u: "hrefOf ?ie = Some ''icon.png''"
    by code_simp
  have 1: "iconStyle.iconUrl (extractIconStyle doc_scaled (Some pm_scaled)) = Some ''icon.png''"
    using scaled [where n = "sharedStyle ''s1'' [iconHref ''icon.png'']" and ie = ?ie
        and u = "''icon.png''", THEN conjunct2, THEN conjunct1] n ie u
    by (elim impE) (intro conjI, assumption+)
  have 2: "removeFirst CHR ''#'' ''#s1'' = ''s1''"
    using scaled [where r' = "''s1''", THEN conjunct2, THEN conjunct2, THEN conjunct1]
    by (elim impE) (rule refl)
  have j: "0 < length (document_getElementsByTagName ''Point'' doc_scaled)"
    by code_simp
  have "coordinatesText (snd (document_getElementsByTagName ''Point'' doc_scaled ! 0)) =
      ''17.63,47.69''"
    by code_simp
  moreover have "parseCoordinates ''17.63,47.69'' \<noteq> []"
    by code_simp
  ultimately have y: "yieldsPoints (snd (document_getElementsByTagName ''Point'' doc_scaled ! 0))"
    by (simp add: yieldsPoints_def)
  have c: "closest ''Placemark'' (document_getElementsByTagName ''Point'' doc_scaled ! 0) =
      Some pm_scaled"
    by code_simp
  have "\<exists>c \<in> set (parsed.icons (fst (parseKML parser0 doc_scaled))).
      icon.originalIndex c = 0 \<and>
      icon.iconUrl c = iconStyle.iconUrl (extractIconStyle doc_scaled (Some pm_scaled)) \<and>
      icon.iconSize c = iconStyle.iconSize (extractIconStyle doc_scaled (Some pm_scaled)) \<and>
      icon.iconAnchor c = iconStyle.iconAnchor (extractIconStyle doc_scaled (Some pm_scaled))"
    using scaled [where j = 0 and this = parser0, THEN conjunct2, THEN conjunct2, THEN conjunct2,
        THEN conjunct2] j y c
    by (elim impE) (intro conjI, assumption+)
  then have 3: "\<exists>c \<in> set (parsed.icons (fst (parseKML parser0 doc_scaled))).
      icon.originalIndex c = 0 \<and>
      icon.iconUrl c = iconStyle.iconUrl (extractIconStyle doc_scaled (Some pm_scaled))"
    by blast
  have f': "\<not> truthy (iconStyle.iconUrl (inlineStyle pm_unresolved))"
    by code_simp
  have r': "styleReference pm_unresolved = Some ''#missing''"
    by code_simp
  have n': "getElementById doc_unresolved (removeFirst CHR ''#'' ''#missing'') = None"
    by code_simp
  have inl: "inlineStyle pm_unresolved =
     \<lparr>iconStyle.iconUrl = None, iconSize = Some (Finite 64, Finite 64),
      iconAnchor = Some (Finite 32, Finite 32)\<rparr>"
    by code_simp
  have "extractIconStyle doc_unresolved (Some pm_unresolved) = inlineStyle pm_unresolved"
    using style_reference_lookup [OF f' r', where doc = doc_unresolved, THEN conjunct1] n'
    by (rule mp)
  then have 4: "extractIconStyle doc_unresolved (Some pm_unresolved) =
     \<lparr>iconStyle.iconUrl = None, iconSize = Some (Finite 64, Finite 64),
      iconAnchor = Some (Finite 32, Finite 32)\<rparr>"
    by (simp only: inl)
  have f'': "\<not> truthy (iconStyle.iconUrl (inlineStyle pm_noHash))"
    by code_simp
  have r'': "styleReference pm_noHash = Some ''s1''"
    by code_simp
  have h: "CHR ''#'' \<notin> set ''s1''"
    by simp
  have 5: "removeFirst CHR ''#'' ''s1'' = ''s1''"
    using style_reference_lookup [OF f'' r'', THEN conjunct2, THEN conjunct2, THEN conjunct2,
        THEN conjunct1] h
    by (rule mp)
  from 1 2 3 4 5 show ?thesis
    by (intro conjI)
qed

end
